theory Spec2Isabelle
  imports Main
begin

section \<open>Control-plane scaling of the RKE2 provider (controllers/scale.go)\<close>

text \<open>
  A shallow embedding of \<^verbatim>\<open>controlplane/internal/controllers/scale.go\<close>.
  Go strings are byte sequences and are modelled as \<open>string\<close> (a list of 8-bit
  characters). A Go \<^verbatim>\<open>error\<close> return is an \<open>error option\<close> (\<open>None\<close> is \<^verbatim>\<open>nil\<close>),
  a nilable pointer is an \<open>option\<close>, and a nil-pointer dereference is the explicit
  outcome \<open>Panic\<close>. Logging and event recording never influence control flow and are
  left out.
\<close>

subsection \<open>Errors\<close>

text \<open>
  \<open>api_error\<close> is what the object store's client hands back; \<^verbatim>\<open>apierrors.IsNotFound\<close>
  recognises the not-found status. \<open>error\<close> is a Go error value as this file builds
  them: \<^verbatim>\<open>errors.Errorf\<close>/\<^verbatim>\<open>errors.New\<close>, \<^verbatim>\<open>errors.Wrap(err, msg)\<close> and
  \<^verbatim>\<open>kerrors.NewAggregate\<close>.
\<close>

datatype api_error = StatusNotFound | StatusFailure string

fun IsNotFound :: "api_error \<Rightarrow> bool" where
  "IsNotFound StatusNotFound = True"
| "IsNotFound (StatusFailure msg) = False"

datatype error =
    Api api_error
  | Errorf string
  | Wrap error string
  | Aggregate "error list"

text \<open>\<^verbatim>\<open>kerrors.NewAggregate\<close> returns nil for an empty list of errors.\<close>

fun NewAggregate :: "error list \<Rightarrow> error option" where
  "NewAggregate [] = None"
| "NewAggregate (e # es) = Some (Aggregate (e # es))"

subsection \<open>Version translation: \<^verbatim>\<open>rke2ToKubeVersion\<close>\<close>

text \<open>
  The source compiles the regular expression
  \<^verbatim>\<open>v(\d\.\d{2}\.\d)\+rke2r\d\<close>
  and calls \<^verbatim>\<open>ReplaceAll(src, "$1")\<close>. Every atom of that expression consumes exactly
  one byte, so the expression is kept as three lists of atoms: what precedes the
  capture group, the group, and what follows it. \<^verbatim>\<open>\d\<close> is the ASCII class
  \<^verbatim>\<open>[0-9]\<close> in Go's syntax.
\<close>

datatype atom = Lit char | Digit

definition isDigit :: "char \<Rightarrow> bool" where
  "isDigit c = (c \<in> set ''0123456789'')"

fun atomMatches :: "atom \<Rightarrow> char \<Rightarrow> bool" where
  "atomMatches (Lit a) c = (a = c)"
| "atomMatches Digit c = isDigit c"

text \<open>
  \<open>matchAtoms as s\<close> matches the atoms against a prefix of \<open>s\<close> and returns the
  matched text and the remainder.
\<close>

fun matchAtoms :: "atom list \<Rightarrow> string \<Rightarrow> (string \<times> string) option" where
  "matchAtoms [] s = Some ([], s)"
| "matchAtoms (a # as) [] = None"
| "matchAtoms (a # as) (c # cs) =
     (if atomMatches a c
      then (case matchAtoms as cs of
              None \<Rightarrow> None
            | Some (m, rest) \<Rightarrow> Some (c # m, rest))
      else None)"

definition regexBeforeGroup :: "atom list" where
  "regexBeforeGroup = [Lit CHR ''v'']"

definition regexGroup1 :: "atom list" where
  "regexGroup1 = [Digit, Lit CHR ''.'', Digit, Digit, Lit CHR ''.'', Digit]"

definition regexAfterGroup :: "atom list" where
  "regexAfterGroup =
     [Lit CHR ''+'', Lit CHR ''r'', Lit CHR ''k'', Lit CHR ''e'', Lit CHR ''2'',
      Lit CHR ''r'', Digit]"

text \<open>
  A match of the whole expression at the start of \<open>s\<close>: the text of group 1 and
  what is left of \<open>s\<close> after the match.
\<close>

definition regexMatchPrefix :: "string \<Rightarrow> (string \<times> string) option" where
  "regexMatchPrefix s =
     (case matchAtoms regexBeforeGroup s of
        None \<Rightarrow> None
      | Some (m0, r0) \<Rightarrow>
          (case matchAtoms regexGroup1 r0 of
             None \<Rightarrow> None
           | Some (g1, r1) \<Rightarrow>
               (case matchAtoms regexAfterGroup r1 of
                  None \<Rightarrow> None
                | Some (m2, r2) \<Rightarrow> Some (g1, r2))))"

text \<open>
  \<^verbatim>\<open>regexp.ReplaceAll\<close> with the template \<^verbatim>\<open>$1\<close>: scanning from the left, every
  (leftmost, non-overlapping) match is replaced by its group 1 and every other
  byte is copied. A match is never empty, so the search resumes right after it,
  on a shorter string.
\<close>

function ReplaceAll_group1 :: "string \<Rightarrow> string" where
  "ReplaceAll_group1 [] = []"
| "ReplaceAll_group1 (c # cs) =
     (case regexMatchPrefix (c # cs) of
        None \<Rightarrow> c # ReplaceAll_group1 cs
      | Some (g1, rest) \<Rightarrow> g1 @ ReplaceAll_group1 rest)"
  by pat_completeness auto
termination
proof (relation "measure length")
  show "wf (measure length)" by simp
next
  fix c :: char and cs :: string
  show "(cs, c # cs) \<in> measure length" by simp
next
  fix c :: char and cs :: string and x2 :: "string \<times> string" and g1 rest :: string
  assume m: "regexMatchPrefix (c # cs) = Some x2" and x: "(g1, rest) = x2"
  have len: "length r \<le> length s" if "matchAtoms as s = Some (m, r)" for as s m r
    using that
    by (induction as s arbitrary: m rule: matchAtoms.induct)
       (auto split: if_splits option.splits)
  from m x obtain m0 r0 where a: "matchAtoms regexBeforeGroup (c # cs) = Some (m0, r0)"
    by (auto simp: regexMatchPrefix_def split: option.splits)
  from m x a obtain r1 where b: "matchAtoms regexGroup1 r0 = Some (g1, r1)"
    by (auto simp: regexMatchPrefix_def split: option.splits)
  from m x a b obtain m2 where d: "matchAtoms regexAfterGroup r1 = Some (m2, rest)"
    by (auto simp: regexMatchPrefix_def split: option.splits)
  from a have "r0 = cs"
    by (auto simp: regexBeforeGroup_def split: if_splits)
  with len [OF b] len [OF d] have "length rest \<le> length cs" by simp
  then show "(rest, c # cs) \<in> measure length" by simp
qed

text \<open>
  \<^verbatim>\<open>MatchString\<close>: the expression is not anchored, so a string matches when a match
  starts at some position of it.
\<close>

fun MatchString :: "string \<Rightarrow> bool" where
  "MatchString [] = False"
| "MatchString (c # cs) = (regexMatchPrefix (c # cs) \<noteq> None \<or> MatchString cs)"

text \<open>
  \<^verbatim>\<open>rke2ToKubeVersion\<close> returns \<^verbatim>\<open>(kubeVersion, err)\<close>. \<^verbatim>\<open>regexp.Compile\<close> is applied
  to a constant, well-formed expression, so its error branch is never taken and the
  model always returns \<open>Inr\<close>.
\<close>

definition rke2ToKubeVersion :: "string \<Rightarrow> error + string" where
  "rke2ToKubeVersion rk2Version = Inr (ReplaceAll_group1 rk2Version)"

subsection \<open>Data model\<close>

text \<open>
  \<^verbatim>\<open>ctrl.Result\<close>; a \<^verbatim>\<open>time.Duration\<close> is a number of nanoseconds.
\<close>

record Result =
  Requeue :: bool
  RequeueAfter :: int

definition emptyResult :: Result where
  "emptyResult = \<lparr>Requeue = False, RequeueAfter = 0\<rparr>"

definition IsZero :: "Result \<Rightarrow> bool" where
  "IsZero result = (result = emptyResult)"

text \<open>
  A function that may dereference a nil pointer either panics or returns.
\<close>

datatype 'a outcome = Panic | Return 'a

text \<open>
  \<^verbatim>\<open>clusterv1.Condition\<close> with the fields this file reads. \<^verbatim>\<open>corev1.ConditionStatus\<close>
  is a string type with three named values.
\<close>

record Condition =
  Type :: string
  Status :: string
  Severity :: string
  Message :: string

definition ConditionTrue :: string where
  "ConditionTrue = ''True''"

definition ConditionFalse :: string where
  "ConditionFalse = ''False''"

definition ConditionUnknown :: string where
  "ConditionUnknown = ''Unknown''"

text \<open>\<^verbatim>\<open>corev1.ObjectReference\<close>: the fields by which the store addresses an object.\<close>

record ObjectReference =
  Kind :: string
  APIVersion :: string
  RefNamespace :: string
  RefName :: string

text \<open>
  \<^verbatim>\<open>clusterv1.Machine\<close>: object metadata (labels and owner references, which no
  decision of this file reads, are left out), the fields of the spec that
  \<^verbatim>\<open>generateMachine\<close> fills in, and the conditions of the status.
\<close>

record Machine =
  Name :: string
  Namespace :: string
  UID :: string
  Annotations :: "(string \<times> string) list"
  DeletionTimestamp :: "nat option"
  ClusterName :: string
  Version :: "string option"
  InfrastructureRef :: ObjectReference
  ConfigRef :: "ObjectReference option"
  FailureDomain :: "string option"
  NodeDrainTimeout :: "int option"
  Conditions :: "Condition list"

record Cluster =
  ClusterObjName :: string
  ClusterObjNamespace :: string

text \<open>
  \<^verbatim>\<open>controlplanev1.RKE2ControlPlane\<close>; the server configuration is an opaque payload.
\<close>

record RKE2ControlPlane =
  RcpName :: string
  RcpNamespace :: string
  RcpUID :: string
  SpecVersion :: string
  SpecInfrastructureRef :: ObjectReference
  SpecServerConfig :: string
  SpecNodeDrainTimeout :: "int option"

text \<open>
  \<^verbatim>\<open>rke2.ControlPlane\<close>, the view of one reconciliation pass. Its type is declared
  outside this file; \<open>Machines\<close> is the collection of owned machines, enumerated in
  some order, and the three other fields hold what the methods
  \<^verbatim>\<open>InitialControlPlaneConfig()\<close>, \<^verbatim>\<open>JoinControlPlaneConfig()\<close> and
  \<^verbatim>\<open>NextFailureDomainForScaleUp()\<close> return for this view.
\<close>

record ControlPlane =
  Machines :: "Machine list"
  InitialControlPlaneConfig :: string
  JoinControlPlaneConfig :: string
  NextFailureDomainForScaleUp :: "string option"

subsection \<open>The reconciler and the object store\<close>

text \<open>
  What the store holds, and the calls issued to it so far. \<open>generated\<close> counts the
  names drawn from \<^verbatim>\<open>names.SimpleNameGenerator\<close>.
\<close>

datatype object =
    RKE2ConfigObject ObjectReference string
  | MachineObject Machine

datatype call =
    CallCloneTemplate ObjectReference
  | CallCreate object
  | CallDelete ObjectReference

record World =
  objects :: "ObjectReference set"
  calls :: "call list"
  generated :: nat

text \<open>
  The receiver \<^verbatim>\<open>r\<close> and the package it lives in. The constants
  \<^verbatim>\<open>deleteRequeueAfter\<close>, \<^verbatim>\<open>preflightFailedRequeueAfter\<close>,
  \<^verbatim>\<open>MachineAgentHealthyCondition\<close>, \<^verbatim>\<open>RKE2ServerConfigurationAnnotation\<close> and the
  bootstrap group version are declared outside this file and are parameters here.
  The other fields say how the collaborators answer during one pass: the uncached
  read of owned machines, the template clone, \<^verbatim>\<open>json.Marshal\<close>, the suffix of the
  \<open>n\<close>-th generated name, and the faults of the store's \<^verbatim>\<open>Create\<close> and
  \<^verbatim>\<open>Delete\<close>.
\<close>

record Reconciler =
  deleteRequeueAfter :: int
  preflightFailedRequeueAfter :: int
  MachineAgentHealthyCondition :: string
  RKE2ServerConfigurationAnnotation :: string
  bootstrapGroupVersion :: string
  GetMachinesForCluster :: "error + Machine list"
  CloneTemplateResult :: "error + ObjectReference"
  jsonMarshal :: "string \<Rightarrow> error + string"
  nameSuffix :: "nat \<Rightarrow> string"
  CreateFault :: "ObjectReference \<Rightarrow> string option"
  DeleteFault :: "ObjectReference \<Rightarrow> api_error option"

text \<open>
  The key under which the store holds a Machine, and the key of an object handed
  to \<^verbatim>\<open>Create\<close>.
\<close>

definition clusterGroupVersion :: string where
  "clusterGroupVersion = ''cluster.x-k8s.io/v1beta1''"

definition machineKey :: "Machine \<Rightarrow> ObjectReference" where
  "machineKey m =
     \<lparr>Kind = ''Machine'', APIVersion = clusterGroupVersion,
      RefNamespace = Namespace m, RefName = Name m\<rparr>"

fun objectKey :: "object \<Rightarrow> ObjectReference" where
  "objectKey (RKE2ConfigObject ref spec) = ref"
| "objectKey (MachineObject m) = machineKey m"

text \<open>
  \<^verbatim>\<open>Client.Create\<close>: a fault, or an object already stored under the key, is an error
  and stores nothing; otherwise the object is stored.
\<close>

definition ClientCreate :: "Reconciler \<Rightarrow> object \<Rightarrow> World \<Rightarrow> api_error option \<times> World" where
  "ClientCreate r obj w =
     (let w1 = w\<lparr>calls := calls w @ [CallCreate obj]\<rparr> in
      case CreateFault r (objectKey obj) of
        Some msg \<Rightarrow> (Some (StatusFailure msg), w1)
      | None \<Rightarrow>
          if objectKey obj \<in> objects w
          then (Some (StatusFailure ''already exists''), w1)
          else (None, w1\<lparr>objects := insert (objectKey obj) (objects w1)\<rparr>))"

text \<open>
  \<^verbatim>\<open>Client.Delete\<close>: a failure leaves the store as it is; a not-found answer, whether
  the object was never there or somebody else removed it in the meantime, means the
  object is not in the store; otherwise the object is removed.
\<close>

definition ClientDelete :: "Reconciler \<Rightarrow> ObjectReference \<Rightarrow> World \<Rightarrow> api_error option \<times> World" where
  "ClientDelete r ref w =
     (let w1 = w\<lparr>calls := calls w @ [CallDelete ref]\<rparr> in
      case DeleteFault r ref of
        Some (StatusFailure msg) \<Rightarrow> (Some (StatusFailure msg), w1)
      | Some StatusNotFound \<Rightarrow> (Some StatusNotFound, w1\<lparr>objects := objects w1 - {ref}\<rparr>)
      | None \<Rightarrow>
          if ref \<in> objects w
          then (None, w1\<lparr>objects := objects w1 - {ref}\<rparr>)
          else (Some StatusNotFound, w1))"

text \<open>
  \<^verbatim>\<open>external.CloneTemplate\<close>: on success the clone is in the store and its reference
  is returned; on failure nothing has been created.
\<close>

definition CloneTemplate :: "Reconciler \<Rightarrow> ObjectReference \<Rightarrow> World \<Rightarrow> (error + ObjectReference) \<times> World" where
  "CloneTemplate r templateRef w =
     (let w1 = w\<lparr>calls := calls w @ [CallCloneTemplate templateRef]\<rparr> in
      case CloneTemplateResult r of
        Inl err \<Rightarrow> (Inl err, w1)
      | Inr infraRef \<Rightarrow> (Inr infraRef, w1\<lparr>objects := insert infraRef (objects w1)\<rparr>))"

text \<open>\<^verbatim>\<open>names.SimpleNameGenerator.GenerateName\<close>: the base and a fresh suffix.\<close>

definition GenerateName :: "Reconciler \<Rightarrow> string \<Rightarrow> World \<Rightarrow> string \<times> World" where
  "GenerateName r base w =
     (base @ nameSuffix r (generated w), w\<lparr>generated := Suc (generated w)\<rparr>)"

subsection \<open>The preflight gate: \<^verbatim>\<open>preflightChecks\<close>\<close>

text \<open>
  \<^verbatim>\<open>conditions.Get\<close>: the first condition of the given type, or nil.
\<close>

definition conditionsGet :: "Machine \<Rightarrow> string \<Rightarrow> Condition option" where
  "conditionsGet obj t = find (\<lambda>c. Type c = t) (Conditions obj)"

definition preflightCheckCondition :: "string \<Rightarrow> Machine \<Rightarrow> string \<Rightarrow> error option" where
  "preflightCheckCondition kind obj condition =
     (case conditionsGet obj condition of
        None \<Rightarrow>
          Some (Errorf (kind @ '' '' @ Name obj @ '' does not have '' @ condition @ '' condition''))
      | Some c \<Rightarrow>
          if Status c = ConditionFalse
          then Some (Errorf (kind @ '' '' @ Name obj @ '' reports '' @ condition
                 @ '' condition is false ('' @ Severity c @ '', '' @ Message c @ '')''))
          else if Status c = ConditionUnknown
          then Some (Errorf (kind @ '' '' @ Name obj @ '' reports '' @ condition
                 @ '' condition is unknown ('' @ Message c @ '')''))
          else None)"

text \<open>
  Modelled from the spec: the filter \<^verbatim>\<open>HasDeletionTimestamp\<close> of package
  \<^verbatim>\<open>machinefilters\<close> is not in this file. The spec: a member has the lifecycle
  marker "deletion-in-progress flag".
\<close>

definition HasDeletionTimestamp :: "Machine \<Rightarrow> bool" where
  "HasDeletionTimestamp machine = (DeletionTimestamp machine \<noteq> None)"

text \<open>
  Modelled from the spec: \<^verbatim>\<open>ControlPlane.HasDeletingMachine\<close> of package \<^verbatim>\<open>rke2\<close> is
  not in this file. The spec gives the view the query \<^verbatim>\<open>HasDeletingMember() \<rightarrow> bool\<close>,
  which takes no exclusions, and the source logs the machines it then waits for as
  \<^verbatim>\<open>controlPlane.Machines.Filter(machinefilters.HasDeletionTimestamp)\<close>.
\<close>

definition HasDeletingMachine :: "ControlPlane \<Rightarrow> bool" where
  "HasDeletingMachine controlPlane =
     (filter HasDeletionTimestamp (Machines controlPlane) \<noteq> [])"

text \<open>
  The inner loop over \<^verbatim>\<open>excludeFor\<close>: \<^verbatim>\<open>excluded.Name\<close> dereferences the pointer, and
  the loop is left at the first entry with the machine's name.
\<close>

fun excludedByName :: "Machine \<Rightarrow> Machine option list \<Rightarrow> bool outcome" where
  "excludedByName machine [] = Return False"
| "excludedByName machine (None # rest) = Panic"
| "excludedByName machine (Some excluded # rest) =
     (if Name machine = Name excluded then Return True
      else excludedByName machine rest)"

text \<open>The inner loop over \<^verbatim>\<open>allMachineHealthConditions\<close>.\<close>

fun checkConditions :: "Machine \<Rightarrow> string list \<Rightarrow> error list \<Rightarrow> error list" where
  "checkConditions machine [] machineErrors = machineErrors"
| "checkConditions machine (condition # rest) machineErrors =
     (case preflightCheckCondition ''machine'' machine condition of
        Some err \<Rightarrow> checkConditions machine rest (machineErrors @ [err])
      | None \<Rightarrow> checkConditions machine rest machineErrors)"

text \<open>The loop labelled \<^verbatim>\<open>loopmachines\<close>.\<close>

fun loopmachines ::
  "string list \<Rightarrow> Machine list \<Rightarrow> Machine option list \<Rightarrow> error list \<Rightarrow> error list outcome"
where
  "loopmachines conds [] excludeFor machineErrors = Return machineErrors"
| "loopmachines conds (machine # rest) excludeFor machineErrors =
     (case excludedByName machine excludeFor of
        Panic \<Rightarrow> Panic
      | Return skip \<Rightarrow>
          if skip then loopmachines conds rest excludeFor machineErrors
          else loopmachines conds rest excludeFor
                 (checkConditions machine conds machineErrors))"

definition preflightChecks ::
  "Reconciler \<Rightarrow> ControlPlane \<Rightarrow> Machine option list \<Rightarrow> (Result \<times> error option) outcome"
where
  "preflightChecks r controlPlane excludeFor =
     (if length (Machines controlPlane) = 0 then Return (emptyResult, None)
      else if HasDeletingMachine controlPlane
      then Return (\<lparr>Requeue = False, RequeueAfter = deleteRequeueAfter r\<rparr>, None)
      else
        (case loopmachines [MachineAgentHealthyCondition r] (Machines controlPlane)
                excludeFor [] of
           Panic \<Rightarrow> Panic
         | Return machineErrors \<Rightarrow>
             if length machineErrors > 0
             then Return (\<lparr>Requeue = False,
                            RequeueAfter = preflightFailedRequeueAfter r\<rparr>, None)
             else Return (emptyResult, None)))"

subsection \<open>Candidate selection: \<^verbatim>\<open>selectMachineForScaleDown\<close>\<close>

definition DeleteMachineAnnotation :: string where
  "DeleteMachineAnnotation = ''cluster.x-k8s.io/delete-machine''"

text \<open>
  Modelled from the spec: \<^verbatim>\<open>ControlPlane.MachineWithDeleteAnnotation\<close> of package
  \<^verbatim>\<open>rke2\<close> is not in this file. The spec: the members of the given collection
  "carrying a delete requested annotation".
\<close>

definition MachineWithDeleteAnnotation :: "ControlPlane \<Rightarrow> Machine list \<Rightarrow> Machine list" where
  "MachineWithDeleteAnnotation controlPlane machines =
     filter (\<lambda>m. map_of (Annotations m) DeleteMachineAnnotation \<noteq> None) machines"

text \<open>
  Modelled from the spec: the view's query \<^verbatim>\<open>MembersInFailureDomain(domain) \<rightarrow> View\<close>
  is not in this file; here it is applied to a collection of machines.
\<close>

definition MembersInFailureDomain :: "string option \<Rightarrow> Machine list \<Rightarrow> Machine list" where
  "MembersInFailureDomain fd machines = filter (\<lambda>m. FailureDomain m = fd) machines"

text \<open>
  Modelled from the spec: the query \<^verbatim>\<open>FailureDomainWithMostMembers(candidates) \<rightarrow> domain\<close>
  is not in this file. The spec: the domain holding the most members of the
  candidates, where "ties in most members favor the domain whose identifier was
  observed as enumerated", read as the domain met first. \<open>pickMost\<close> is its scan
  over the candidates, keeping the best domain so far.
\<close>

fun pickMost :: "Machine list \<Rightarrow> Machine list \<Rightarrow> string option \<Rightarrow> string option" where
  "pickMost candidates [] best = best"
| "pickMost candidates (m # ms) best =
     (if length (MembersInFailureDomain (FailureDomain m) candidates)
           > length (MembersInFailureDomain best candidates)
      then pickMost candidates ms (FailureDomain m)
      else pickMost candidates ms best)"

text \<open>
  Modelled from the spec: \<^verbatim>\<open>FailureDomainWithMostMembers\<close>, as above; for no candidates
  the domain is nil.
\<close>

definition FailureDomainWithMostMachines :: "Machine list \<Rightarrow> string option" where
  "FailureDomainWithMostMachines candidates =
     (case candidates of
        [] \<Rightarrow> None
      | m # ms \<Rightarrow> pickMost candidates ms (FailureDomain m))"

text \<open>
  Modelled from the spec: \<^verbatim>\<open>ControlPlane.MachineInFailureDomainWithMostMachines\<close> of
  package \<^verbatim>\<open>rke2\<close> is not in this file. The spec: "Within the chosen set, pick a
  member belonging to the failure domain holding the most members from that set",
  "fail with an explicit error if the resulting set is empty". Which member of
  that domain is picked is left open by the spec; the model takes the one
  enumerated first.
\<close>

definition MachineInFailureDomainWithMostMachines ::
  "ControlPlane \<Rightarrow> Machine list \<Rightarrow> Machine option \<times> error option"
where
  "MachineInFailureDomainWithMostMachines controlPlane machines =
     (case MembersInFailureDomain (FailureDomainWithMostMachines machines) machines of
        [] \<Rightarrow> (None, Some (Errorf ''failed to pick control plane Machine to mark for deletion''))
      | m # ms \<Rightarrow> (Some m, None))"

definition selectMachineForScaleDown ::
  "ControlPlane \<Rightarrow> Machine list \<Rightarrow> Machine option \<times> error option"
where
  "selectMachineForScaleDown controlPlane outdatedMachines =
     (let machines = Machines controlPlane;
          machines' =
            (if length (MachineWithDeleteAnnotation controlPlane outdatedMachines) > 0
             then MachineWithDeleteAnnotation controlPlane outdatedMachines
             else if length (MachineWithDeleteAnnotation controlPlane machines) > 0
             then MachineWithDeleteAnnotation controlPlane machines
             else if length outdatedMachines > 0
             then outdatedMachines
             else machines)
      in MachineInFailureDomainWithMostMachines controlPlane machines')"

text \<open>
  The candidate pool in the words of the spec: the first non-empty of the four
  collections, in this order.
\<close>

definition candidatePool :: "ControlPlane \<Rightarrow> Machine list \<Rightarrow> Machine list" where
  "candidatePool controlPlane outdatedMachines =
     (case filter (\<lambda>pool. pool \<noteq> [])
             [MachineWithDeleteAnnotation controlPlane outdatedMachines,
              MachineWithDeleteAnnotation controlPlane (Machines controlPlane),
              outdatedMachines,
              Machines controlPlane] of
        [] \<Rightarrow> []
      | pool # others \<Rightarrow> pool)"

subsection \<open>Provisioning: \<^verbatim>\<open>cloneConfigsAndGenerateMachine\<close>\<close>

definition generateRKE2Config ::
  "Reconciler \<Rightarrow> RKE2ControlPlane \<Rightarrow> Cluster \<Rightarrow> string \<Rightarrow> World
     \<Rightarrow> (error + ObjectReference) \<times> World"
where
  "generateRKE2Config r rcp cluster spec w =
     (case GenerateName r (RcpName rcp @ ''-'') w of
        (name, w1) \<Rightarrow>
          (let bootstrapRef =
                 \<lparr>Kind = ''RKE2Config'', APIVersion = bootstrapGroupVersion r,
                  RefNamespace = RcpNamespace rcp, RefName = name\<rparr>
           in case ClientCreate r (RKE2ConfigObject bootstrapRef spec) w1 of
                (Some err, w2) \<Rightarrow>
                  (Inl (Wrap (Api err) ''Failed to create bootstrap configuration''), w2)
              | (None, w2) \<Rightarrow> (Inr bootstrapRef, w2)))"

definition generateMachine ::
  "Reconciler \<Rightarrow> RKE2ControlPlane \<Rightarrow> Cluster \<Rightarrow> ObjectReference
     \<Rightarrow> ObjectReference option \<Rightarrow> string option \<Rightarrow> World \<Rightarrow> error option \<times> World"
where
  "generateMachine r rcp cluster infraRef bootstrapRef failureDomain w =
     (case rke2ToKubeVersion (SpecVersion rcp) of
        Inl err \<Rightarrow> (Some err, w)
      | Inr newVersion \<Rightarrow>
          (case GenerateName r (RcpName rcp @ ''-'') w of
             (name, w1) \<Rightarrow>
               (let machine =
                      \<lparr>Name = name, Namespace = RcpNamespace rcp, UID = '''',
                       Annotations = [], DeletionTimestamp = None,
                       ClusterName = ClusterObjName cluster, Version = Some newVersion,
                       InfrastructureRef = infraRef, ConfigRef = bootstrapRef,
                       FailureDomain = failureDomain,
                       NodeDrainTimeout = SpecNodeDrainTimeout rcp, Conditions = []\<rparr>
                in case jsonMarshal r (SpecServerConfig rcp) of
                     Inl err \<Rightarrow> (Some (Wrap err ''failed to marshal cluster configuration''), w1)
                   | Inr serverConfig \<Rightarrow>
                       (case ClientCreate r
                               (MachineObject
                                  (machine\<lparr>Annotations :=
                                     [(RKE2ServerConfigurationAnnotation r, serverConfig)]\<rparr>))
                               w1 of
                          (Some err, w2) \<Rightarrow> (Some (Wrap (Api err) ''failed to create machine''), w2)
                        | (None, w2) \<Rightarrow> (None, w2)))))"

text \<open>The loop of \<^verbatim>\<open>cleanupFromGeneration\<close> over \<^verbatim>\<open>remoteRefs\<close>, nil references skipped.\<close>

fun cleanupLoop ::
  "Reconciler \<Rightarrow> ObjectReference option list \<Rightarrow> error list \<Rightarrow> World \<Rightarrow> error list \<times> World"
where
  "cleanupLoop r [] errs w = (errs, w)"
| "cleanupLoop r (None # refs) errs w = cleanupLoop r refs errs w"
| "cleanupLoop r (Some ref # refs) errs w =
     (case ClientDelete r ref w of
        (Some err, w1) \<Rightarrow>
          if \<not> IsNotFound err
          then cleanupLoop r refs
                 (errs @ [Wrap (Api err) ''failed to cleanup generated resources after error'']) w1
          else cleanupLoop r refs errs w1
      | (None, w1) \<Rightarrow> cleanupLoop r refs errs w1)"

definition cleanupFromGeneration ::
  "Reconciler \<Rightarrow> ObjectReference option list \<Rightarrow> World \<Rightarrow> error option \<times> World"
where
  "cleanupFromGeneration r remoteRefs w =
     (case cleanupLoop r remoteRefs [] w of
        (errs, w1) \<Rightarrow> (NewAggregate errs, w1))"

definition cloneConfigsAndGenerateMachine ::
  "Reconciler \<Rightarrow> Cluster \<Rightarrow> RKE2ControlPlane \<Rightarrow> string \<Rightarrow> string option \<Rightarrow> World
     \<Rightarrow> error option \<times> World"
where
  "cloneConfigsAndGenerateMachine r cluster rcp bootstrapSpec failureDomain w =
     (case CloneTemplate r (SpecInfrastructureRef rcp) w of
        (Inl err, w1) \<Rightarrow> (Some (Wrap err ''failed to clone infrastructure template''), w1)
      | (Inr infraRef, w1) \<Rightarrow>
          (case generateRKE2Config r rcp cluster bootstrapSpec w1 of
             (bootstrapResult, w2) \<Rightarrow>
               (let bootstrapRef = (case bootstrapResult of Inl err \<Rightarrow> None | Inr ref \<Rightarrow> Some ref);
                    errs = (case bootstrapResult of
                              Inl err \<Rightarrow> [Wrap err ''failed to generate bootstrap config'']
                            | Inr ref \<Rightarrow> [])
                in case (if length errs = 0
                         then (case generateMachine r rcp cluster infraRef bootstrapRef
                                      failureDomain w2 of
                                 (Some err, w3) \<Rightarrow> (errs @ [Wrap err ''failed to create Machine''], w3)
                               | (None, w3) \<Rightarrow> (errs, w3))
                         else (errs, w2)) of
                     (errs1, w3) \<Rightarrow>
                       if length errs1 > 0
                       then (case cleanupFromGeneration r [Some infraRef, bootstrapRef] w3 of
                               (Some err, w4) \<Rightarrow>
                                 (NewAggregate
                                    (errs1 @ [Wrap err ''failed to cleanup generated resources'']), w4)
                             | (None, w4) \<Rightarrow> (NewAggregate errs1, w4))
                       else (None, w3))))"

subsection \<open>The scale operations\<close>

text \<open>The decimal form of a count, as \<^verbatim>\<open>%d\<close> prints it.\<close>

fun showNat :: "nat \<Rightarrow> string" where
  "showNat n =
     (if n < 10 then [''0123456789'' ! n]
      else showNat (n div 10) @ [''0123456789'' ! (n mod 10)])"

declare showNat.simps [simp del]

definition initializeControlPlane ::
  "Reconciler \<Rightarrow> Cluster \<Rightarrow> RKE2ControlPlane \<Rightarrow> ControlPlane \<Rightarrow> World
     \<Rightarrow> (Result \<times> error option) \<times> World"
where
  "initializeControlPlane r cluster rcp controlPlane w =
     (case GetMachinesForCluster r of
        Inl err \<Rightarrow> ((emptyResult, Some err), w)
      | Inr ownedMachines \<Rightarrow>
          if length ownedMachines > 0
          then ((emptyResult,
                 Some (Errorf (''control plane has already been initialized, found ''
                    @ showNat (length ownedMachines) @ '' owned machine for cluster ''
                    @ ClusterObjNamespace cluster @ ''/'' @ ClusterObjName cluster
                    @ '': controller cache or management cluster is misbehaving''))), w)
          else
            (let bootstrapSpec = InitialControlPlaneConfig controlPlane;
                 fd = NextFailureDomainForScaleUp controlPlane
             in case cloneConfigsAndGenerateMachine r cluster rcp bootstrapSpec fd w of
                  (Some err, w1) \<Rightarrow> ((emptyResult, Some err), w1)
                | (None, w1) \<Rightarrow> ((\<lparr>Requeue = True, RequeueAfter = 0\<rparr>, None), w1)))"

definition scaleUpControlPlane ::
  "Reconciler \<Rightarrow> Cluster \<Rightarrow> RKE2ControlPlane \<Rightarrow> ControlPlane \<Rightarrow> World
     \<Rightarrow> (Result \<times> error option) outcome \<times> World"
where
  "scaleUpControlPlane r cluster rcp controlPlane w =
     (case preflightChecks r controlPlane [] of
        Panic \<Rightarrow> (Panic, w)
      | Return (result, err) \<Rightarrow>
          if err \<noteq> None \<or> \<not> IsZero result then (Return (result, err), w)
          else
            (let bootstrapSpec = JoinControlPlaneConfig controlPlane;
                 fd = NextFailureDomainForScaleUp controlPlane
             in case cloneConfigsAndGenerateMachine r cluster rcp bootstrapSpec fd w of
                  (Some err, w1) \<Rightarrow> (Return (emptyResult, Some err), w1)
                | (None, w1) \<Rightarrow> (Return (\<lparr>Requeue = True, RequeueAfter = 0\<rparr>, None), w1)))"

text \<open>
  \<^verbatim>\<open>scaleDownControlPlane\<close> from its preflight call on, for a given value of
  \<^verbatim>\<open>machineToDelete\<close>.
\<close>

definition scaleDownSelected ::
  "Reconciler \<Rightarrow> Cluster \<Rightarrow> RKE2ControlPlane \<Rightarrow> ControlPlane \<Rightarrow> Machine option \<Rightarrow> World
     \<Rightarrow> (Result \<times> error option) outcome \<times> World"
where
  "scaleDownSelected r cluster rcp controlPlane machineToDelete w =
     (case preflightChecks r controlPlane [machineToDelete] of
        Panic \<Rightarrow> (Panic, w)
      | Return (result, err) \<Rightarrow>
          if err \<noteq> None \<or> \<not> IsZero result then (Return (result, err), w)
          else
            (case machineToDelete of
               None \<Rightarrow>
                 (Return (emptyResult,
                          Some (Errorf ''failed to pick control plane Machine to delete'')), w)
             | Some machine \<Rightarrow>
                 (case ClientDelete r (machineKey machine) w of
                    (Some err, w1) \<Rightarrow>
                      if \<not> IsNotFound err then (Return (emptyResult, Some (Api err)), w1)
                      else (Return (\<lparr>Requeue = True, RequeueAfter = 0\<rparr>, None), w1)
                  | (None, w1) \<Rightarrow> (Return (\<lparr>Requeue = True, RequeueAfter = 0\<rparr>, None), w1))))"

definition scaleDownControlPlane ::
  "Reconciler \<Rightarrow> Cluster \<Rightarrow> RKE2ControlPlane \<Rightarrow> ControlPlane \<Rightarrow> Machine list \<Rightarrow> World
     \<Rightarrow> (Result \<times> error option) outcome \<times> World"
where
  "scaleDownControlPlane r cluster rcp controlPlane outdatedMachines w =
     (case selectMachineForScaleDown controlPlane outdatedMachines of
        (machineToDelete, Some err) \<Rightarrow>
          (Return (emptyResult, Some (Wrap err ''failed to select machine for scale down'')), w)
      | (machineToDelete, None) \<Rightarrow>
          scaleDownSelected r cluster rcp controlPlane machineToDelete w)"

subsection \<open>Observations on a provisioning attempt\<close>

text \<open>
  The children of an attempt whose creation succeeded: the clone of the
  infrastructure template and, when it could be created, the bootstrap
  configuration.
\<close>

definition createdChildren ::
  "Reconciler \<Rightarrow> Cluster \<Rightarrow> RKE2ControlPlane \<Rightarrow> string \<Rightarrow> World \<Rightarrow> ObjectReference list"
where
  "createdChildren r cluster rcp bootstrapSpec w =
     (case CloneTemplate r (SpecInfrastructureRef rcp) w of
        (Inl err, w1) \<Rightarrow> []
      | (Inr infraRef, w1) \<Rightarrow>
          (case generateRKE2Config r rcp cluster bootstrapSpec w1 of
             (Inl err, w2) \<Rightarrow> [infraRef]
           | (Inr bootstrapRef, w2) \<Rightarrow> [infraRef, bootstrapRef]))"

text \<open>
  The cleanup failures for a list of references: one wrapped error for every
  deletion that the store fails other than with not-found.
\<close>

fun cleanupFailures :: "Reconciler \<Rightarrow> ObjectReference list \<Rightarrow> error list" where
  "cleanupFailures r [] = []"
| "cleanupFailures r (ref # refs) =
     (case DeleteFault r ref of
        Some (StatusFailure msg) \<Rightarrow>
          Wrap (Api (StatusFailure msg)) ''failed to cleanup generated resources after error''
            # cleanupFailures r refs
      | Some StatusNotFound \<Rightarrow> cleanupFailures r refs
      | None \<Rightarrow> cleanupFailures r refs)"

fun isMachineCreate :: "call \<Rightarrow> bool" where
  "isMachineCreate (CallCreate (MachineObject m)) = True"
| "isMachineCreate (CallCreate (RKE2ConfigObject ref spec)) = False"
| "isMachineCreate (CallCloneTemplate ref) = False"
| "isMachineCreate (CallDelete ref) = False"

subsection \<open>Sample data\<close>

definition sampleInfraRef :: ObjectReference where
  "sampleInfraRef =
     \<lparr>Kind = ''VSphereMachine'', APIVersion = ''infrastructure.cluster.x-k8s.io/v1beta1'',
      RefNamespace = ''default'', RefName = ''cp-infra-x7k2p''\<rparr>"

definition sampleReconciler :: Reconciler where
  "sampleReconciler =
     \<lparr>deleteRequeueAfter = 30000000000,
      preflightFailedRequeueAfter = 15000000000,
      MachineAgentHealthyCondition = ''AgentHealthy'',
      RKE2ServerConfigurationAnnotation = ''controlplane.cluster.x-k8s.io/rke2-server-configuration'',
      bootstrapGroupVersion = ''bootstrap.cluster.x-k8s.io/v1alpha1'',
      GetMachinesForCluster = Inr [],
      CloneTemplateResult = Inr sampleInfraRef,
      jsonMarshal = (\<lambda>payload. Inr payload),
      nameSuffix = (\<lambda>n. if n = 0 then ''4xq8z'' else ''9bw2m''),
      CreateFault = (\<lambda>ref. None),
      DeleteFault = (\<lambda>ref. None)\<rparr>"

definition sampleCluster :: Cluster where
  "sampleCluster = \<lparr>ClusterObjName = ''c1'', ClusterObjNamespace = ''default''\<rparr>"

definition sampleRcp :: RKE2ControlPlane where
  "sampleRcp =
     \<lparr>RcpName = ''cp'', RcpNamespace = ''default'', RcpUID = ''uid-cp'',
      SpecVersion = ''v1.23.4+rke2r1'',
      SpecInfrastructureRef =
        \<lparr>Kind = ''VSphereMachineTemplate'',
         APIVersion = ''infrastructure.cluster.x-k8s.io/v1beta1'',
         RefNamespace = ''default'', RefName = ''cp-template''\<rparr>,
      SpecServerConfig = ''{}'', SpecNodeDrainTimeout = None\<rparr>"

definition sampleWorld :: World where
  "sampleWorld = \<lparr>objects = {}, calls = [], generated = 0\<rparr>"

text \<open>A machine with a name, a failure domain and a status of its agent condition.\<close>

definition sampleMachine :: "string \<Rightarrow> string option \<Rightarrow> string \<Rightarrow> Machine" where
  "sampleMachine name fd status =
     \<lparr>Name = name, Namespace = ''default'', UID = ''uid-'' @ name,
      Annotations = [], DeletionTimestamp = None,
      ClusterName = ''c1'', Version = Some ''1.23.4'',
      InfrastructureRef = sampleInfraRef, ConfigRef = None,
      FailureDomain = fd, NodeDrainTimeout = None,
      Conditions = [\<lparr>Type = ''AgentHealthy'', Status = status,
                     Severity = ''Warning'', Message = ''''\<rparr>]\<rparr>"

definition sampleControlPlane :: "Machine list \<Rightarrow> ControlPlane" where
  "sampleControlPlane machines =
     \<lparr>Machines = machines, InitialControlPlaneConfig = ''init'',
      JoinControlPlaneConfig = ''join'', NextFailureDomainForScaleUp = None\<rparr>"


text \<open>
  Reconcilers whose store refuses to create bootstrap configurations, refuses in
  addition every deletion, or refuses only deletions.
\<close>

definition sampleReconcilerConfigFails :: Reconciler where
  "sampleReconcilerConfigFails =
     sampleReconciler\<lparr>CreateFault :=
       (\<lambda>ref. if Kind ref = ''RKE2Config'' then Some ''admission denied'' else None)\<rparr>"

definition sampleReconcilerRollbackFails :: Reconciler where
  "sampleReconcilerRollbackFails =
     sampleReconcilerConfigFails\<lparr>DeleteFault := (\<lambda>ref. Some (StatusFailure ''timeout''))\<rparr>"

definition sampleReconcilerDeleteFails :: Reconciler where
  "sampleReconcilerDeleteFails =
     sampleReconciler\<lparr>DeleteFault := (\<lambda>ref. Some (StatusFailure ''timeout''))\<rparr>"


section \<open>Properties\<close>

lemmas regex_defs =
  regexMatchPrefix_def regexBeforeGroup_def regexGroup1_def regexAfterGroup_def

lemmas sample_defs =
  sampleReconciler_def sampleControlPlane_def sampleMachine_def sampleCluster_def
  sampleRcp_def sampleWorld_def sampleInfraRef_def sampleReconcilerConfigFails_def
  sampleReconcilerRollbackFails_def sampleReconcilerDeleteFails_def

subsection \<open>Version translation\<close>

lemma matchAtoms_sound:
  "matchAtoms as s = Some (m, r) \<Longrightarrow> s = m @ r \<and> list_all2 atomMatches as m"
  by (induction as s arbitrary: m r rule: matchAtoms.induct)
     (auto split: if_splits option.splits)

lemma matchAtoms_complete:
  "list_all2 atomMatches as m \<Longrightarrow> matchAtoms as (m @ r) = Some (m, r)"
  by (induction as m rule: list_all2_induct) auto

lemma matchAtoms_iff:
  "matchAtoms as s = Some (m, r) \<longleftrightarrow> s = m @ r \<and> list_all2 atomMatches as m"
  using matchAtoms_sound matchAtoms_complete by blast

text \<open>
  The expression matches at the start of \<open>s\<close> exactly when \<open>s\<close> begins with
  \<^verbatim>\<open>v\<close>, one digit, a dot, two digits, a dot, one digit and \<^verbatim>\<open>+rke2r\<close> followed by one
  digit; group 1 is the part between \<^verbatim>\<open>v\<close> and \<^verbatim>\<open>+\<close>.
\<close>

lemma regexMatchPrefix_iff:
  "regexMatchPrefix s = Some (g, rest) \<longleftrightarrow>
     (\<exists>a b c d n. isDigit a \<and> isDigit b \<and> isDigit c \<and> isDigit d \<and> isDigit n
        \<and> g = [a, CHR ''.'', b, c, CHR ''.'', d]
        \<and> s = ''v'' @ g @ ''+rke2r'' @ [n] @ rest)"
proof
  assume "regexMatchPrefix s = Some (g, rest)"
  then obtain m0 r0 r1 m2 where
    "matchAtoms regexBeforeGroup s = Some (m0, r0)"
    "matchAtoms regexGroup1 r0 = Some (g, r1)"
    "matchAtoms regexAfterGroup r1 = Some (m2, rest)"
    by (auto simp: regexMatchPrefix_def split: option.splits)
  then have "s = m0 @ g @ m2 @ rest" "list_all2 atomMatches regexBeforeGroup m0"
    "list_all2 atomMatches regexGroup1 g" "list_all2 atomMatches regexAfterGroup m2"
    by (simp_all add: matchAtoms_iff)
  then show "\<exists>a b c d n. isDigit a \<and> isDigit b \<and> isDigit c \<and> isDigit d \<and> isDigit n
        \<and> g = [a, CHR ''.'', b, c, CHR ''.'', d]
        \<and> s = ''v'' @ g @ ''+rke2r'' @ [n] @ rest"
    by (auto simp: regexBeforeGroup_def regexGroup1_def regexAfterGroup_def list_all2_Cons1)
next
  assume "\<exists>a b c d n. isDigit a \<and> isDigit b \<and> isDigit c \<and> isDigit d \<and> isDigit n
        \<and> g = [a, CHR ''.'', b, c, CHR ''.'', d]
        \<and> s = ''v'' @ g @ ''+rke2r'' @ [n] @ rest"
  then show "regexMatchPrefix s = Some (g, rest)"
    by (auto simp: regex_defs)
qed

lemma MatchString_iff_suffix:
  "MatchString s \<longleftrightarrow> (\<exists>p t. s = p @ t \<and> regexMatchPrefix t \<noteq> None)"
proof (induction s)
  case Nil
  show ?case by (simp add: regex_defs)
next
  case (Cons c cs)
  show ?case
  proof
    assume "MatchString (c # cs)"
    then consider "regexMatchPrefix (c # cs) \<noteq> None" | "MatchString cs" by auto
    then show "\<exists>p t. c # cs = p @ t \<and> regexMatchPrefix t \<noteq> None"
    proof cases
      case 1
      then have "c # cs = [] @ (c # cs) \<and> regexMatchPrefix (c # cs) \<noteq> None" by simp
      then show ?thesis by blast
    next
      case 2
      with Cons obtain p t where "cs = p @ t" "regexMatchPrefix t \<noteq> None" by blast
      then have "c # cs = (c # p) @ t \<and> regexMatchPrefix t \<noteq> None" by simp
      then show ?thesis by blast
    qed
  next
    assume "\<exists>p t. c # cs = p @ t \<and> regexMatchPrefix t \<noteq> None"
    then obtain p t where pt: "c # cs = p @ t" "regexMatchPrefix t \<noteq> None" by blast
    show "MatchString (c # cs)"
    proof (cases p)
      case Nil
      with pt have "regexMatchPrefix (c # cs) \<noteq> None" by simp
      then show ?thesis by simp
    next
      case (Cons x p')
      with pt have "cs = p' @ t" by simp
      with pt Cons.IH have "MatchString cs" by blast
      then show ?thesis by simp
    qed
  qed
qed

text \<open>
  \<open>MatchString\<close> in closed form: some substring of \<open>s\<close> has the shape of the
  expression.
\<close>

lemma MatchString_iff:
  "MatchString s \<longleftrightarrow>
     (\<exists>p q a b c d n. isDigit a \<and> isDigit b \<and> isDigit c \<and> isDigit d \<and> isDigit n
        \<and> s = p @ ''v'' @ [a] @ ''.'' @ [b, c] @ ''.'' @ [d] @ ''+rke2r'' @ [n] @ q)"
proof
  assume "MatchString s"
  then obtain p t g q where s: "s = p @ t" and m: "regexMatchPrefix t = Some (g, q)"
    by (auto simp: MatchString_iff_suffix)
  from m obtain a b c d n where
    "isDigit a" "isDigit b" "isDigit c" "isDigit d" "isDigit n"
    "t = ''v'' @ [a, CHR ''.'', b, c, CHR ''.'', d] @ ''+rke2r'' @ [n] @ q"
    unfolding regexMatchPrefix_iff by blast
  with s have "isDigit a \<and> isDigit b \<and> isDigit c \<and> isDigit d \<and> isDigit n
        \<and> s = p @ ''v'' @ [a] @ ''.'' @ [b, c] @ ''.'' @ [d] @ ''+rke2r'' @ [n] @ q"
    by simp
  then show "\<exists>p q a b c d n. isDigit a \<and> isDigit b \<and> isDigit c \<and> isDigit d \<and> isDigit n
        \<and> s = p @ ''v'' @ [a] @ ''.'' @ [b, c] @ ''.'' @ [d] @ ''+rke2r'' @ [n] @ q"
    by blast
next
  assume "\<exists>p q a b c d n. isDigit a \<and> isDigit b \<and> isDigit c \<and> isDigit d \<and> isDigit n
        \<and> s = p @ ''v'' @ [a] @ ''.'' @ [b, c] @ ''.'' @ [d] @ ''+rke2r'' @ [n] @ q"
  then obtain p q a b c d n where
    dg: "isDigit a" "isDigit b" "isDigit c" "isDigit d" "isDigit n" and
    s: "s = p @ ''v'' @ [a] @ ''.'' @ [b, c] @ ''.'' @ [d] @ ''+rke2r'' @ [n] @ q"
    by blast
  from dg have "regexMatchPrefix (''v'' @ [a] @ ''.'' @ [b, c] @ ''.'' @ [d] @ ''+rke2r'' @ [n] @ q)
      = Some ([a, CHR ''.'', b, c, CHR ''.'', d], q)"
    by (simp add: regex_defs)
  with s show "MatchString s"
    unfolding MatchString_iff_suffix by blast
qed

lemma regexMatchPrefix_version:
  assumes "isDigit a" "isDigit b" "isDigit c" "isDigit d" "isDigit n"
  shows "regexMatchPrefix (CHR ''v'' # a # CHR ''.'' # b # c # CHR ''.'' # d # ''+rke2r'' @ n # rest)
           = Some ([a, CHR ''.'', b, c, CHR ''.'', d], rest)"
  using assms by (simp add: regex_defs)

text \<open>
  The expression has one digit for the patch level and one for the revision. A
  two-digit patch level leaves the string as it is; of a two-digit revision the
  second digit is left behind.
\<close>

lemma rke2ToKubeVersion_two_digit_revision:
  "rke2ToKubeVersion ''v1.23.4+rke2r10'' = Inr ''1.23.40''"
  by (simp add: rke2ToKubeVersion_def regex_defs isDigit_def)

text \<open>
  Claim C1, as the code has it: for every version string consisting of \<^verbatim>\<open>v\<close>, a
  one-digit major, a two-digit minor and a one-digit patch number, \<^verbatim>\<open>+rke2r\<close> and a
  one-digit revision, \<^verbatim>\<open>rke2ToKubeVersion\<close> returns major.minor.patch without the
  leading \<^verbatim>\<open>v\<close> and with no error: the \<^verbatim>\<open>v\<close> stands outside the capture group that
  replaces the match.
\<close>

theorem rke2ToKubeVersion_strips_v_and_suffix:
  assumes "isDigit a" "isDigit b" "isDigit c" "isDigit d" "isDigit n"
  shows "rke2ToKubeVersion (''v'' @ [a] @ ''.'' @ [b, c] @ ''.'' @ [d] @ ''+rke2r'' @ [n])
           = Inr ([a] @ ''.'' @ [b, c] @ ''.'' @ [d])"
  using regexMatchPrefix_version [OF assms, of "[]"]
  by (simp add: rke2ToKubeVersion_def)

theorem rke2ToKubeVersion_strips_v_and_suffix_witness:
  "isDigit CHR ''1'' \<and> isDigit CHR ''2'' \<and> isDigit CHR ''3'' \<and> isDigit CHR ''4''
   \<and> rke2ToKubeVersion ''v1.23.4+rke2r1'' = Inr ''1.23.4''"
  using rke2ToKubeVersion_strips_v_and_suffix
          [of "CHR ''1''" "CHR ''2''" "CHR ''3''" "CHR ''4''" "CHR ''1''"]
  by (simp add: isDigit_def)

text \<open>
  On the input of the claim, \<^verbatim>\<open>v1.23.4+rke2r1\<close>, the result is not \<^verbatim>\<open>v1.23.4\<close>.
\<close>

theorem rke2ToKubeVersion_drops_v_counterexample:
  "rke2ToKubeVersion ''v1.23.4+rke2r1'' \<noteq> Inr ''v1.23.4''"
  by (simp add: rke2ToKubeVersion_def regex_defs isDigit_def)

text \<open>
  Claim C8: an input in which the expression matches nowhere (\<open>MatchString\<close> is
  false, see \<open>MatchString_iff\<close>) is returned unchanged, with no error.
\<close>

theorem rke2ToKubeVersion_unmatched_unchanged:
  "\<not> MatchString s \<Longrightarrow> rke2ToKubeVersion s = Inr s"
  unfolding rke2ToKubeVersion_def
  by (induction s) (auto split: option.splits)

theorem rke2ToKubeVersion_unmatched_unchanged_witness:
  "\<not> MatchString ''v1.23.14+rke2r1''
   \<and> rke2ToKubeVersion ''v1.23.14+rke2r1'' = Inr ''v1.23.14+rke2r1''"
  using rke2ToKubeVersion_unmatched_unchanged [of "''v1.23.14+rke2r1''"]
  by (simp add: regex_defs isDigit_def)


subsection \<open>The preflight gate\<close>

lemma excludedByName_map_Some:
  "excludedByName machine (map Some excluded) = Return (Name machine \<in> Name ` set excluded)"
  by (induction excluded) auto

lemma excludedByName_member:
  "Some excluded \<in> set excludeFor \<Longrightarrow> Name machine = Name excluded \<Longrightarrow>
     excludedByName machine excludeFor \<noteq> Return False"
  by (induction machine excludeFor rule: excludedByName.induct) auto

lemma excludedByName_Name:
  "Name machine' = Name machine \<Longrightarrow>
     excludedByName machine' excludeFor = excludedByName machine excludeFor"
  by (induction machine excludeFor rule: excludedByName.induct) auto

lemma checkConditions_append:
  "checkConditions machine conds errs = errs @ checkConditions machine conds []"
proof (induction conds arbitrary: errs)
  case Nil
  show ?case by simp
next
  case (Cons c conds)
  show ?case
  proof (cases "preflightCheckCondition ''machine'' machine c")
    case None
    with Cons [of errs] show ?thesis by simp
  next
    case (Some e)
    with Cons [of "errs @ [e]"] Cons [of "[e]"] show ?thesis by simp
  qed
qed

text \<open>
  With no nil entry in \<^verbatim>\<open>excludeFor\<close>, the loop collects the errors of exactly the
  machines whose name is not the name of an excluded machine.
\<close>

lemma loopmachines_map_Some:
  "loopmachines conds machines (map Some excluded) errs =
     Return (errs @ concat (map (\<lambda>m. checkConditions m conds [])
                        (filter (\<lambda>m. Name m \<notin> Name ` set excluded) machines)))"
proof (induction machines arbitrary: errs)
  case Nil
  show ?case by simp
next
  case (Cons m ms)
  show ?case
    using Cons [of errs] Cons [of "checkConditions m conds errs"]
      checkConditions_append [of m conds errs]
    by (simp add: excludedByName_map_Some)
qed

lemma preflightCheckCondition_iff:
  "preflightCheckCondition kind obj t \<noteq> None \<longleftrightarrow>
     (case conditionsGet obj t of
        None \<Rightarrow> True
      | Some c \<Rightarrow> Status c = ConditionFalse \<or> Status c = ConditionUnknown)"
  by (simp add: preflightCheckCondition_def split: option.splits)

lemma HasDeletingMachine_iff:
  "HasDeletingMachine controlPlane \<longleftrightarrow>
     (\<exists>m \<in> set (Machines controlPlane). DeletionTimestamp m \<noteq> None)"
  by (auto simp: HasDeletingMachine_def HasDeletionTimestamp_def filter_empty_conv)

text \<open>On an empty view the gate passes at once, whatever the exclusions.\<close>

lemma preflightChecks_empty_view:
  "Machines controlPlane = [] \<Longrightarrow>
     preflightChecks r controlPlane excludeFor = Return (emptyResult, None)"
  by (simp add: preflightChecks_def)

text \<open>
  Claim C4, as the code has it: the deletion-marker rule does not look at the
  exclusion set. For every non-empty view and every \<^verbatim>\<open>excludeFor\<close>, with the two
  backoff constants different from each other and from zero (so that the result
  tells which rule fired), the gate returns the \<^verbatim>\<open>deleteRequeueAfter\<close> backoff if and
  only if some member of the view, excluded or not, carries a deletion marker.
\<close>

theorem preflightChecks_deleting_ignores_exclusion:
  assumes "Machines controlPlane \<noteq> []"
    and "deleteRequeueAfter r \<noteq> 0"
    and "deleteRequeueAfter r \<noteq> preflightFailedRequeueAfter r"
  shows "preflightChecks r controlPlane excludeFor
           = Return (\<lparr>Requeue = False, RequeueAfter = deleteRequeueAfter r\<rparr>, None)
         \<longleftrightarrow> (\<exists>m \<in> set (Machines controlPlane). DeletionTimestamp m \<noteq> None)"
  using assms
  by (auto simp: preflightChecks_def HasDeletingMachine_iff emptyResult_def
           split: outcome.splits)

theorem preflightChecks_deleting_ignores_exclusion_witness:
  "preflightChecks sampleReconciler
     (sampleControlPlane [sampleMachine ''cp-a'' None ''True'',
                          (sampleMachine ''cp-b'' None ''True'')\<lparr>DeletionTimestamp := Some 1\<rparr>])
     [Some (sampleMachine ''cp-a'' None ''True'')]
   = Return (\<lparr>Requeue = False, RequeueAfter = 30000000000\<rparr>, None)"
  using preflightChecks_deleting_ignores_exclusion
          [of "sampleControlPlane [sampleMachine ''cp-a'' None ''True'',
                 (sampleMachine ''cp-b'' None ''True'')\<lparr>DeletionTimestamp := Some 1\<rparr>]"
              sampleReconciler "[Some (sampleMachine ''cp-a'' None ''True'')]"]
  by (simp add: sample_defs)

text \<open>
  A view of two members in which only \<^verbatim>\<open>cp-b\<close> carries a deletion marker, with
  \<^verbatim>\<open>cp-b\<close> as the exclusion: no member outside the exclusion set carries a marker,
  and the gate still returns the \<^verbatim>\<open>deleteRequeueAfter\<close> backoff.
\<close>

theorem preflightChecks_excluded_deleting_counterexample:
  "preflightChecks sampleReconciler
     (sampleControlPlane [sampleMachine ''cp-a'' None ''True'',
                          (sampleMachine ''cp-b'' None ''True'')\<lparr>DeletionTimestamp := Some 1\<rparr>])
     [Some ((sampleMachine ''cp-b'' None ''True'')\<lparr>DeletionTimestamp := Some 1\<rparr>)]
   = Return (\<lparr>Requeue = False, RequeueAfter = deleteRequeueAfter sampleReconciler\<rparr>, None)
   \<and> DeletionTimestamp (sampleMachine ''cp-a'' None ''True'') = None"
  by (simp add: preflightChecks_def HasDeletingMachine_def HasDeletionTimestamp_def sample_defs)


text \<open>
  Claim C6: in the health phase (a non-empty view with no deleting machine, and
  exclusions that are not nil), the loop collects, for every member whose name is
  not excluded, the error of the one required condition, and nothing for the
  others; a condition yields an error exactly when it is absent, false or unknown;
  and the gate returns the \<^verbatim>\<open>preflightFailedRequeueAfter\<close> backoff with a nil error
  when some not-excluded member has such a condition, and the empty result
  otherwise. The conditions of an excluded member therefore never block.
\<close>

theorem preflightChecks_health_phase:
  assumes "Machines controlPlane \<noteq> []" and "\<not> HasDeletingMachine controlPlane"
  shows "loopmachines [MachineAgentHealthyCondition r] (Machines controlPlane)
             (map Some excluded) []
           = Return (concat (map
               (\<lambda>m. case preflightCheckCondition ''machine'' m (MachineAgentHealthyCondition r) of
                      Some err \<Rightarrow> [err] | None \<Rightarrow> [])
               (filter (\<lambda>m. Name m \<notin> Name ` set excluded) (Machines controlPlane))))
       \<and> (\<forall>m. preflightCheckCondition ''machine'' m (MachineAgentHealthyCondition r) \<noteq> None
             \<longleftrightarrow> (case conditionsGet m (MachineAgentHealthyCondition r) of
                    None \<Rightarrow> True
                  | Some c \<Rightarrow> Status c = ConditionFalse \<or> Status c = ConditionUnknown))
       \<and> preflightChecks r controlPlane (map Some excluded)
           = Return
              (if \<exists>m \<in> set (Machines controlPlane). Name m \<notin> Name ` set excluded
                    \<and> preflightCheckCondition ''machine'' m (MachineAgentHealthyCondition r) \<noteq> None
               then \<lparr>Requeue = False, RequeueAfter = preflightFailedRequeueAfter r\<rparr>
               else emptyResult, None)"
proof -
  let ?c = "MachineAgentHealthyCondition r"
  let ?ms = "filter (\<lambda>m. Name m \<notin> Name ` set excluded) (Machines controlPlane)"
  let ?errs = "concat (map (\<lambda>m. case preflightCheckCondition ''machine'' m ?c of
                      Some err \<Rightarrow> [err] | None \<Rightarrow> []) ?ms)"
  have one: "checkConditions m [?c] [] =
      (case preflightCheckCondition ''machine'' m ?c of Some err \<Rightarrow> [err] | None \<Rightarrow> [])" for m
    by (simp split: option.splits)
  have loop: "loopmachines [?c] (Machines controlPlane) (map Some excluded) [] = Return ?errs"
    by (simp add: loopmachines_map_Some one del: checkConditions.simps)
  have nonempty: "?errs \<noteq> [] \<longleftrightarrow>
      (\<exists>m \<in> set (Machines controlPlane). Name m \<notin> Name ` set excluded
          \<and> preflightCheckCondition ''machine'' m ?c \<noteq> None)"
    by (auto split: option.splits)
  have gate: "preflightChecks r controlPlane (map Some excluded)
      = Return (if ?errs \<noteq> [] then \<lparr>Requeue = False, RequeueAfter = preflightFailedRequeueAfter r\<rparr>
                else emptyResult, None)"
  proof -
    obtain errs where errs: "errs = ?errs" by simp
    from assms have "preflightChecks r controlPlane (map Some excluded)
      = Return (if errs \<noteq> [] then \<lparr>Requeue = False, RequeueAfter = preflightFailedRequeueAfter r\<rparr>
                else emptyResult, None)"
      unfolding preflightChecks_def loop errs [symmetric] by simp
    then show ?thesis unfolding errs .
  qed
  show ?thesis
    using loop gate nonempty preflightCheckCondition_iff by presburger
qed

theorem preflightChecks_health_phase_witness:
  "preflightChecks sampleReconciler
     (sampleControlPlane [sampleMachine ''cp-a'' None ''True'', sampleMachine ''cp-b'' None ''False''])
     (map Some [sampleMachine ''cp-b'' None ''False''])
   = Return (emptyResult, None)
   \<and> preflightChecks sampleReconciler
     (sampleControlPlane [sampleMachine ''cp-a'' None ''True'', sampleMachine ''cp-b'' None ''False''])
     (map Some [sampleMachine ''cp-a'' None ''True''])
   = Return (\<lparr>Requeue = False, RequeueAfter = 15000000000\<rparr>, None)"
  using preflightChecks_health_phase
          [of "sampleControlPlane [sampleMachine ''cp-a'' None ''True'',
                                   sampleMachine ''cp-b'' None ''False'']"
              sampleReconciler "[sampleMachine ''cp-b'' None ''False'']"]
        preflightChecks_health_phase
          [of "sampleControlPlane [sampleMachine ''cp-a'' None ''True'',
                                   sampleMachine ''cp-b'' None ''False'']"
              sampleReconciler "[sampleMachine ''cp-a'' None ''True'']"]
  by (simp add: sample_defs HasDeletingMachine_def HasDeletionTimestamp_def
        preflightCheckCondition_def conditionsGet_def ConditionFalse_def ConditionUnknown_def)

lemma loopmachines_skip:
  assumes "excluded \<in> set excludeFor" and "Name machine = Name excluded"
  shows "loopmachines conds (before @ machine # after) (map Some excludeFor) errs
           = loopmachines conds (before @ after) (map Some excludeFor) errs"
  using assms by (simp add: loopmachines_map_Some del: loopmachines.simps)

lemma loopmachines_Name:
  assumes "Some excluded \<in> set excludeFor" and "Name machine = Name excluded"
    and "Name machine' = Name machine"
  shows "loopmachines conds (before @ machine' # after) excludeFor errs
           = loopmachines conds (before @ machine # after) excludeFor errs"
proof (induction before arbitrary: errs)
  case Nil
  from assms(1,2) have "excludedByName machine excludeFor \<noteq> Return False"
    by (rule excludedByName_member)
  moreover have "excludedByName machine' excludeFor = excludedByName machine excludeFor"
    using assms(3) by (rule excludedByName_Name)
  ultimately show ?case
    by (auto split: outcome.splits)
next
  case (Cons b before)
  then show ?case by (simp split: outcome.splits)
qed

text \<open>
  Claim C10: exclusion is by the \<^verbatim>\<open>Name\<close> field alone. A member of the view whose name
  is the name of some excluded machine is skipped by the loop, so the collected
  errors are those of the view without it; nothing is assumed about the namespace,
  the UID or any other field of the two. And the gate gives the same answer when
  that member is replaced by any machine of the same name and deletion marker,
  whatever its namespace, UID and conditions.
\<close>

theorem preflightChecks_excludes_by_name:
  assumes "excluded \<in> set excludeFor" and "Name machine = Name excluded"
  shows "loopmachines conds (before @ machine # after) (map Some excludeFor) errs
           = loopmachines conds (before @ after) (map Some excludeFor) errs
       \<and> (\<forall>machine'. Name machine' = Name machine
              \<and> DeletionTimestamp machine' = DeletionTimestamp machine
            \<longrightarrow> preflightChecks r (controlPlane\<lparr>Machines := before @ machine' # after\<rparr>)
                   (map Some excludeFor)
                = preflightChecks r (controlPlane\<lparr>Machines := before @ machine # after\<rparr>)
                   (map Some excludeFor))"
proof -
  have "preflightChecks r (controlPlane\<lparr>Machines := before @ machine' # after\<rparr>)
                   (map Some excludeFor)
                = preflightChecks r (controlPlane\<lparr>Machines := before @ machine # after\<rparr>)
                   (map Some excludeFor)"
    if "Name machine' = Name machine" "DeletionTimestamp machine' = DeletionTimestamp machine"
    for machine'
  proof -
    from assms(1) have "Some excluded \<in> set (map Some excludeFor)" by simp
    from loopmachines_Name [OF this assms(2) that(1)]
    have "loopmachines conds (before @ machine' # after) (map Some excludeFor) errs
           = loopmachines conds (before @ machine # after) (map Some excludeFor) errs"
      for conds errs .
    with that(2) show ?thesis
      by (simp add: preflightChecks_def HasDeletingMachine_def HasDeletionTimestamp_def
           del: loopmachines.simps)
  qed
  with loopmachines_skip [OF assms] show ?thesis by blast
qed

theorem preflightChecks_excludes_by_name_witness:
  "loopmachines [''AgentHealthy'']
     ([sampleMachine ''cp-a'' None ''True''] @ sampleMachine ''cp-b'' None ''False'' # [])
     (map Some [(sampleMachine ''cp-b'' None ''True'')\<lparr>Namespace := ''other'', UID := ''uid-2''\<rparr>]) []
   = Return []
   \<and> preflightChecks sampleReconciler
       (sampleControlPlane [sampleMachine ''cp-a'' None ''True'', sampleMachine ''cp-b'' None ''False''])
       [Some ((sampleMachine ''cp-b'' None ''True'')\<lparr>Namespace := ''other'', UID := ''uid-2''\<rparr>)]
     = Return (emptyResult, None)"
  using preflightChecks_excludes_by_name
          [of "(sampleMachine ''cp-b'' None ''True'')\<lparr>Namespace := ''other'', UID := ''uid-2''\<rparr>"
              "[(sampleMachine ''cp-b'' None ''True'')\<lparr>Namespace := ''other'', UID := ''uid-2''\<rparr>]"
              "sampleMachine ''cp-b'' None ''False''"
              "[''AgentHealthy'']" "[sampleMachine ''cp-a'' None ''True'']" "[]" "[]"
              sampleReconciler "sampleControlPlane []"]
  by (simp add: sample_defs preflightChecks_def HasDeletingMachine_def HasDeletionTimestamp_def
        preflightCheckCondition_def conditionsGet_def ConditionFalse_def ConditionUnknown_def
        emptyResult_def)


subsection \<open>Candidate selection\<close>

lemmas select_defs =
  selectMachineForScaleDown_def MachineWithDeleteAnnotation_def
  MachineInFailureDomainWithMostMachines_def FailureDomainWithMostMachines_def
  MembersInFailureDomain_def DeleteMachineAnnotation_def Let_def

lemma pickMost_ge_best:
  "length (MembersInFailureDomain best candidates)
     \<le> length (MembersInFailureDomain (pickMost candidates ms best) candidates)"
proof (induction ms arbitrary: best)
  case Nil
  show ?case by simp
next
  case (Cons m ms)
  show ?case
    using Cons [of best] Cons [of "FailureDomain m"] by auto
qed

lemma pickMost_ge_all:
  "m \<in> set ms \<Longrightarrow>
     length (MembersInFailureDomain (FailureDomain m) candidates)
       \<le> length (MembersInFailureDomain (pickMost candidates ms best) candidates)"
proof (induction ms arbitrary: best)
  case Nil
  then show ?case by simp
next
  case (Cons x xs)
  show ?case
  proof (cases "m = x")
    case True
    show ?thesis
      using pickMost_ge_best [of best candidates xs]
        pickMost_ge_best [of "FailureDomain x" candidates xs] True
      by auto
  next
    case False
    with Cons.prems have "m \<in> set xs" by simp
    from Cons.IH [OF this] show ?thesis by simp
  qed
qed

lemma pickMost_range:
  "pickMost candidates ms best = best \<or> pickMost candidates ms best \<in> FailureDomain ` set ms"
proof (induction ms arbitrary: best)
  case Nil
  show ?case by simp
next
  case (Cons m ms)
  show ?case
    using Cons [of best] Cons [of "FailureDomain m"] by auto
qed

lemma FailureDomainWithMostMachines_most:
  assumes "candidates \<noteq> []"
  shows "FailureDomainWithMostMachines candidates \<in> FailureDomain ` set candidates"
    and "m \<in> set candidates \<Longrightarrow>
           length (MembersInFailureDomain (FailureDomain m) candidates)
             \<le> length (MembersInFailureDomain (FailureDomainWithMostMachines candidates) candidates)"
proof -
  from assms obtain x xs where c: "candidates = x # xs" by (cases candidates) auto
  then have fd: "FailureDomainWithMostMachines candidates = pickMost candidates xs (FailureDomain x)"
    by (simp add: FailureDomainWithMostMachines_def)
  from pickMost_range [of candidates xs "FailureDomain x"] c fd
  show "FailureDomainWithMostMachines candidates \<in> FailureDomain ` set candidates"
    by auto
  assume "m \<in> set candidates"
  with c consider "m = x" | "m \<in> set xs" by auto
  then show "length (MembersInFailureDomain (FailureDomain m) candidates)
             \<le> length (MembersInFailureDomain (FailureDomainWithMostMachines candidates) candidates)"
  proof cases
    case 1
    with pickMost_ge_best [of "FailureDomain x" candidates xs] fd show ?thesis by simp
  next
    case 2
    with pickMost_ge_all [of m xs candidates "FailureDomain x"] fd show ?thesis by simp
  qed
qed

lemma MachineInFailureDomainWithMostMachines_pick:
  assumes "candidates \<noteq> []"
  shows "\<exists>m. MachineInFailureDomainWithMostMachines controlPlane candidates = (Some m, None)
           \<and> m \<in> set candidates
           \<and> (\<forall>m' \<in> set candidates.
                 length (MembersInFailureDomain (FailureDomain m') candidates)
                   \<le> length (MembersInFailureDomain (FailureDomain m) candidates))"
proof -
  let ?fd = "FailureDomainWithMostMachines candidates"
  from FailureDomainWithMostMachines_most(1) [OF assms]
  have "MembersInFailureDomain ?fd candidates \<noteq> []"
    by (auto simp: MembersInFailureDomain_def filter_empty_conv)
  then obtain m ms where ms: "MembersInFailureDomain ?fd candidates = m # ms"
    by (cases "MembersInFailureDomain ?fd candidates") auto
  then have "m \<in> set (MembersInFailureDomain ?fd candidates)" by simp
  then have m: "m \<in> set candidates" "FailureDomain m = ?fd"
    by (auto simp: MembersInFailureDomain_def)
  from ms have "MachineInFailureDomainWithMostMachines controlPlane candidates = (Some m, None)"
    by (simp add: MachineInFailureDomainWithMostMachines_def)
  with m FailureDomainWithMostMachines_most(2) [OF assms] show ?thesis
    by auto
qed

lemma MachineInFailureDomainWithMostMachines_empty:
  "MachineInFailureDomainWithMostMachines controlPlane []
     = (None, Some (Errorf ''failed to pick control plane Machine to mark for deletion''))"
  by (simp add: MachineInFailureDomainWithMostMachines_def MembersInFailureDomain_def)

lemma select_pool:
  "selectMachineForScaleDown controlPlane outdatedMachines
     = MachineInFailureDomainWithMostMachines controlPlane
         (candidatePool controlPlane outdatedMachines)"
  by (simp add: selectMachineForScaleDown_def candidatePool_def Let_def)

text \<open>
  Claim C5: the candidate is chosen from the first non-empty of (1) the outdated
  machines with the delete annotation, (2) the machines of the view with that
  annotation, (3) the outdated machines, (4) the machines of the view
  (\<open>candidatePool\<close>). When that pool is empty an error is returned with no machine;
  otherwise a machine of the pool is returned with a nil error, and no failure
  domain holds more machines of the pool than the one of the returned machine.
\<close>

theorem selectMachineForScaleDown_precedence:
  "selectMachineForScaleDown controlPlane outdatedMachines
     = MachineInFailureDomainWithMostMachines controlPlane
         (candidatePool controlPlane outdatedMachines)
   \<and> (candidatePool controlPlane outdatedMachines = []
        \<longrightarrow> (\<exists>err. selectMachineForScaleDown controlPlane outdatedMachines = (None, Some err)))
   \<and> (candidatePool controlPlane outdatedMachines \<noteq> []
        \<longrightarrow> (\<exists>m. selectMachineForScaleDown controlPlane outdatedMachines = (Some m, None)
               \<and> m \<in> set (candidatePool controlPlane outdatedMachines)
               \<and> (\<forall>m' \<in> set (candidatePool controlPlane outdatedMachines).
                     length (MembersInFailureDomain (FailureDomain m')
                               (candidatePool controlPlane outdatedMachines))
                       \<le> length (MembersInFailureDomain (FailureDomain m)
                               (candidatePool controlPlane outdatedMachines)))))"
  using MachineInFailureDomainWithMostMachines_pick
          [of "candidatePool controlPlane outdatedMachines" controlPlane]
        MachineInFailureDomainWithMostMachines_empty [of controlPlane]
  by (simp only: select_pool) auto

theorem selectMachineForScaleDown_precedence_witness:
  "selectMachineForScaleDown
     (sampleControlPlane
        [sampleMachine ''cp-a'' (Some ''z1'') ''True'',
         sampleMachine ''cp-b'' (Some ''z1'') ''True'',
         (sampleMachine ''cp-c'' (Some ''z2'') ''True'')
            \<lparr>Annotations := [(''cluster.x-k8s.io/delete-machine'', [])]\<rparr>])
     [(sampleMachine ''cp-c'' (Some ''z2'') ''True'')
            \<lparr>Annotations := [(''cluster.x-k8s.io/delete-machine'', [])]\<rparr>]
   = (Some ((sampleMachine ''cp-c'' (Some ''z2'') ''True'')
            \<lparr>Annotations := [(''cluster.x-k8s.io/delete-machine'', [])]\<rparr>), None)
   \<and> selectMachineForScaleDown
     (sampleControlPlane
        [sampleMachine ''cp-d'' (Some ''z2'') ''True'',
         sampleMachine ''cp-a'' (Some ''z1'') ''True'',
         sampleMachine ''cp-b'' (Some ''z1'') ''True'']) []
   = (Some (sampleMachine ''cp-a'' (Some ''z1'') ''True''), None)
   \<and> selectMachineForScaleDown (sampleControlPlane []) []
   = (None, Some (Errorf ''failed to pick control plane Machine to mark for deletion''))"
  using selectMachineForScaleDown_precedence [of "sampleControlPlane
        [sampleMachine ''cp-a'' (Some ''z1'') ''True'',
         sampleMachine ''cp-b'' (Some ''z1'') ''True'',
         (sampleMachine ''cp-c'' (Some ''z2'') ''True'')
            \<lparr>Annotations := [(''cluster.x-k8s.io/delete-machine'', [])]\<rparr>]"
       "[(sampleMachine ''cp-c'' (Some ''z2'') ''True'')
            \<lparr>Annotations := [(''cluster.x-k8s.io/delete-machine'', [])]\<rparr>]"]
    selectMachineForScaleDown_precedence [of "sampleControlPlane
        [sampleMachine ''cp-d'' (Some ''z2'') ''True'',
         sampleMachine ''cp-a'' (Some ''z1'') ''True'',
         sampleMachine ''cp-b'' (Some ''z1'') ''True'']" "[]"]
    selectMachineForScaleDown_precedence [of "sampleControlPlane []" "[]"]
  by (simp add: select_defs candidatePool_def sample_defs)


subsection \<open>Provisioning and rollback\<close>

lemmas provision_defs =
  cloneConfigsAndGenerateMachine_def CloneTemplate_def generateRKE2Config_def
  generateMachine_def GenerateName_def ClientCreate_def ClientDelete_def
  cleanupFromGeneration_def rke2ToKubeVersion_def Let_def

lemma ClientDelete_calls:
  "calls (snd (ClientDelete r ref w)) = calls w @ [CallDelete ref]"
  by (simp add: ClientDelete_def Let_def split: option.splits api_error.splits)

lemma ClientDelete_objects_subset:
  "objects (snd (ClientDelete r ref w)) \<subseteq> objects w"
  by (auto simp: ClientDelete_def Let_def split: option.splits api_error.splits)

lemma ClientDelete_removes:
  "cleanupFailures r [ref] = [] \<Longrightarrow>
     objects (snd (ClientDelete r ref w)) = objects w - {ref}"
  by (auto simp: ClientDelete_def Let_def split: option.splits api_error.splits)

lemma ClientDelete_failure:
  "(case fst (ClientDelete r ref w) of
      Some err \<Rightarrow> if \<not> IsNotFound err
                  then [Wrap (Api err) ''failed to cleanup generated resources after error'']
                  else []
    | None \<Rightarrow> []) = cleanupFailures r [ref]"
  by (simp add: ClientDelete_def Let_def split: option.splits api_error.splits)

lemma cleanupLoop_step:
  "cleanupLoop r (Some ref # refs) errs w
     = cleanupLoop r refs (errs @ cleanupFailures r [ref]) (snd (ClientDelete r ref w))"
  using ClientDelete_failure [of r ref w]
  by (cases "ClientDelete r ref w") (auto split: option.splits if_splits)

lemma cleanupFailures_append:
  "cleanupFailures r (xs @ ys) = cleanupFailures r xs @ cleanupFailures r ys"
  by (induction xs) (auto split: option.splits api_error.splits)

lemma cleanup_one:
  "cleanupFromGeneration r [Some a, None] w
     = (NewAggregate (cleanupFailures r [a]), snd (ClientDelete r a w))"
  by (simp add: cleanupFromGeneration_def cleanupLoop_step del: cleanupLoop.simps(3) cleanupFailures.simps)

lemma cleanup_two:
  "cleanupFromGeneration r [Some a, Some b] w
     = (NewAggregate (cleanupFailures r [a, b]),
        snd (ClientDelete r b (snd (ClientDelete r a w))))"
  using cleanupFailures_append [of r "[a]" "[b]"]
  by (simp add: cleanupFromGeneration_def cleanupLoop_step del: cleanupLoop.simps(3) cleanupFailures.simps)


lemma CloneTemplate_success:
  "CloneTemplateResult r = Inr infraRef \<Longrightarrow>
     CloneTemplate r templateRef w
       = (Inr infraRef,
          w\<lparr>calls := calls w @ [CallCloneTemplate templateRef],
            objects := insert infraRef (objects w)\<rparr>)"
  by (simp add: CloneTemplate_def Let_def)


lemma ClientCreate_cases:
  obtains (Stored)
      "ClientCreate r obj w
         = (None, w\<lparr>calls := calls w @ [CallCreate obj],
                     objects := insert (objectKey obj) (objects w)\<rparr>)"
      "objectKey obj \<notin> objects w"
  | (Refused) err where
      "ClientCreate r obj w = (Some err, w\<lparr>calls := calls w @ [CallCreate obj]\<rparr>)"
  by (cases "CreateFault r (objectKey obj)"; cases "objectKey obj \<in> objects w")
     (auto simp: ClientCreate_def Let_def)

lemma generateRKE2Config_cases:
  obtains (Failed) e w2 where
      "generateRKE2Config r rcp cluster spec w1 = (Inl e, w2)"
      "objects w2 = objects w1"
      "filter isMachineCreate (calls w2) = filter isMachineCreate (calls w1)"
      "set (calls w1) \<subseteq> set (calls w2)"
  | (Created) ref w2 where
      "generateRKE2Config r rcp cluster spec w1 = (Inr ref, w2)"
      "objects w2 = insert ref (objects w1)" "ref \<notin> objects w1"
      "filter isMachineCreate (calls w2) = filter isMachineCreate (calls w1)"
      "set (calls w1) \<subseteq> set (calls w2)"
proof -
  let ?ref = "\<lparr>Kind = ''RKE2Config'', APIVersion = bootstrapGroupVersion r,
               RefNamespace = RcpNamespace rcp,
               RefName = (RcpName rcp @ ''-'') @ nameSuffix r (generated w1)\<rparr>"
  let ?w = "w1\<lparr>generated := Suc (generated w1)\<rparr>"
  have g: "generateRKE2Config r rcp cluster spec w1 =
      (case ClientCreate r (RKE2ConfigObject ?ref spec) ?w of
         (Some err, w2) \<Rightarrow> (Inl (Wrap (Api err) ''Failed to create bootstrap configuration''), w2)
       | (None, w2) \<Rightarrow> (Inr ?ref, w2))"
    by (simp add: generateRKE2Config_def GenerateName_def Let_def split: prod.splits option.splits)
  show ?thesis
  proof (cases r "RKE2ConfigObject ?ref spec" ?w rule: ClientCreate_cases)
    case Stored
    from g Stored(1) have eq: "generateRKE2Config r rcp cluster spec w1
        = (Inr ?ref, ?w\<lparr>calls := calls ?w @ [CallCreate (RKE2ConfigObject ?ref spec)],
                          objects := insert ?ref (objects ?w)\<rparr>)"
      by simp
    show ?thesis
    proof (rule Created [OF eq])
      show "?ref \<notin> objects w1" using Stored(2) by simp
    qed auto
  next
    case (Refused err)
    with g have eq: "generateRKE2Config r rcp cluster spec w1
        = (Inl (Wrap (Api err) ''Failed to create bootstrap configuration''),
           ?w\<lparr>calls := calls ?w @ [CallCreate (RKE2ConfigObject ?ref spec)]\<rparr>)"
      by simp
    show ?thesis
      by (rule Failed [OF eq]) auto
  qed
qed

lemma generateMachine_cases:
  obtains (Failed) e w3 where
      "generateMachine r rcp cluster infraRef bootstrapRef fd w2 = (Some e, w3)"
      "objects w3 = objects w2"
      "set (calls w2) \<subseteq> set (calls w3)"
  | (Created) machine w3 where
      "generateMachine r rcp cluster infraRef bootstrapRef fd w2 = (None, w3)"
      "objects w3 = insert (machineKey machine) (objects w2)"
      "machineKey machine \<notin> objects w2"
      "calls w3 = calls w2 @ [CallCreate (MachineObject machine)]"
proof -
  obtain v where v: "rke2ToKubeVersion (SpecVersion rcp) = Inr v"
    by (simp add: rke2ToKubeVersion_def)
  let ?w = "w2\<lparr>generated := Suc (generated w2)\<rparr>"
  show ?thesis
  proof (cases "jsonMarshal r (SpecServerConfig rcp)")
    case (Inl e)
    with v have eq: "generateMachine r rcp cluster infraRef bootstrapRef fd w2
        = (Some (Wrap e ''failed to marshal cluster configuration''), ?w)"
      by (simp add: generateMachine_def GenerateName_def Let_def)
    show ?thesis by (rule Failed [OF eq]) simp_all
  next
    case (Inr serverConfig)
    let ?m = "\<lparr>Name = (RcpName rcp @ ''-'') @ nameSuffix r (generated w2),
                Namespace = RcpNamespace rcp, UID = [],
                Annotations = [(RKE2ServerConfigurationAnnotation r, serverConfig)],
                DeletionTimestamp = None,
                ClusterName = ClusterObjName cluster, Version = Some v,
                InfrastructureRef = infraRef, ConfigRef = bootstrapRef,
                FailureDomain = fd, NodeDrainTimeout = SpecNodeDrainTimeout rcp,
                Conditions = []\<rparr>"
    from v Inr have g: "generateMachine r rcp cluster infraRef bootstrapRef fd w2 =
      (case ClientCreate r (MachineObject ?m) ?w of
         (Some err, w3) \<Rightarrow> (Some (Wrap (Api err) ''failed to create machine''), w3)
       | (None, w3) \<Rightarrow> (None, w3))"
      by (simp add: generateMachine_def GenerateName_def Let_def split: prod.splits option.splits)
    show ?thesis
    proof (cases r "MachineObject ?m" ?w rule: ClientCreate_cases)
      case Stored
      from g Stored(1) have eq: "generateMachine r rcp cluster infraRef bootstrapRef fd w2
          = (None, ?w\<lparr>calls := calls ?w @ [CallCreate (MachineObject ?m)],
                       objects := insert (objectKey (MachineObject ?m)) (objects ?w)\<rparr>)"
        by simp
      show ?thesis
      proof (rule Created [OF eq])
        show "machineKey ?m \<notin> objects w2" using Stored(2) by simp
      qed simp_all
    next
      case (Refused err)
      with g have eq: "generateMachine r rcp cluster infraRef bootstrapRef fd w2
          = (Some (Wrap (Api err) ''failed to create machine''),
             ?w\<lparr>calls := calls ?w @ [CallCreate (MachineObject ?m)]\<rparr>)"
        by simp
      show ?thesis
        by (rule Failed [OF eq]) auto
    qed
  qed
qed


lemma provision_config_failed:
  assumes "CloneTemplateResult r = Inr infraRef"
    and "generateRKE2Config r rcp cluster spec
           (w\<lparr>calls := calls w @ [CallCloneTemplate (SpecInfrastructureRef rcp)],
              objects := insert infraRef (objects w)\<rparr>) = (Inl e, w2)"
  shows "cloneConfigsAndGenerateMachine r cluster rcp spec fd w
     = (Some (Aggregate (Wrap e ''failed to generate bootstrap config''
                # (case cleanupFailures r [infraRef] of
                     [] \<Rightarrow> []
                   | f # fs \<Rightarrow> [Wrap (Aggregate (f # fs))
                                  ''failed to cleanup generated resources'']))),
        snd (ClientDelete r infraRef w2))"
    and "createdChildren r cluster rcp spec w = [infraRef]"
  using assms
  by (cases "cleanupFailures r [infraRef]";
      simp add: cloneConfigsAndGenerateMachine_def createdChildren_def
        CloneTemplate_success cleanup_one Let_def
        del: cleanupFailures.simps)+

lemma provision_machine_failed:
  assumes "CloneTemplateResult r = Inr infraRef"
    and "generateRKE2Config r rcp cluster spec
           (w\<lparr>calls := calls w @ [CallCloneTemplate (SpecInfrastructureRef rcp)],
              objects := insert infraRef (objects w)\<rparr>) = (Inr ref, w2)"
    and "generateMachine r rcp cluster infraRef (Some ref) fd w2 = (Some e, w3)"
  shows "cloneConfigsAndGenerateMachine r cluster rcp spec fd w
     = (Some (Aggregate (Wrap e ''failed to create Machine''
                # (case cleanupFailures r [infraRef, ref] of
                     [] \<Rightarrow> []
                   | f # fs \<Rightarrow> [Wrap (Aggregate (f # fs))
                                  ''failed to cleanup generated resources'']))),
        snd (ClientDelete r ref (snd (ClientDelete r infraRef w3))))"
    and "createdChildren r cluster rcp spec w = [infraRef, ref]"
  using assms
  by (cases "cleanupFailures r [infraRef, ref]";
      simp add: cloneConfigsAndGenerateMachine_def createdChildren_def
        CloneTemplate_success cleanup_two Let_def
        del: cleanupFailures.simps)+

lemma provision_success:
  assumes "CloneTemplateResult r = Inr infraRef"
    and "generateRKE2Config r rcp cluster spec
           (w\<lparr>calls := calls w @ [CallCloneTemplate (SpecInfrastructureRef rcp)],
              objects := insert infraRef (objects w)\<rparr>) = (Inr ref, w2)"
    and "generateMachine r rcp cluster infraRef (Some ref) fd w2 = (None, w3)"
  shows "cloneConfigsAndGenerateMachine r cluster rcp spec fd w = (None, w3)"
    and "createdChildren r cluster rcp spec w = [infraRef, ref]"
  using assms
  by (simp_all add: cloneConfigsAndGenerateMachine_def createdChildren_def
        CloneTemplate_success)


lemma cleanupFailures_two:
  "cleanupFailures r [a, b] = [] \<longleftrightarrow> cleanupFailures r [a] = [] \<and> cleanupFailures r [b] = []"
  using cleanupFailures_append [of r "[a]" "[b]"] by simp

text \<open>
  When the clone of the infrastructure template fails, the error is returned at
  once and the store is as before.
\<close>

lemma provision_clone_failed:
  "CloneTemplateResult r = Inl e \<Longrightarrow>
     cloneConfigsAndGenerateMachine r cluster rcp spec fd w
       = (Some (Wrap e ''failed to clone infrastructure template''),
          w\<lparr>calls := calls w @ [CallCloneTemplate (SpecInfrastructureRef rcp)]\<rparr>)"
  by (simp add: cloneConfigsAndGenerateMachine_def CloneTemplate_def Let_def)

text \<open>
  Claim C2, as the code has it. After a successful clone of the infrastructure
  template: when the attempt returns an error, a delete has been issued for every
  child that had been created; the error is the aggregate of the creation failure
  (of the bootstrap configuration or of the Machine) followed, when some deletion
  failed other than with not-found, by the wrapped aggregate of these cleanup
  failures; and when no deletion failed in that way, the store holds nothing it did
  not hold before and none of the children. When the attempt returns nil, the store
  has gained the clone, the bootstrap configuration and one Machine, and exactly
  one Machine creation has been issued. A child whose deletion fails stays in the
  store: the cleanup is an attempt.
\<close>

theorem provisioning_rollback:
  assumes "CloneTemplateResult r = Inr infraRef"
  shows
    "(case cloneConfigsAndGenerateMachine r cluster rcp spec fd w of
        (Some err, w') \<Rightarrow>
          (\<forall>ref \<in> set (createdChildren r cluster rcp spec w). CallDelete ref \<in> set (calls w'))
          \<and> (\<exists>e. err = Aggregate
                       (Wrap e ''failed to generate bootstrap config''
                        # (case cleanupFailures r (createdChildren r cluster rcp spec w) of
                             [] \<Rightarrow> []
                           | f # fs \<Rightarrow> [Wrap (Aggregate (f # fs))
                                          ''failed to cleanup generated resources'']))
                 \<or> err = Aggregate
                       (Wrap e ''failed to create Machine''
                        # (case cleanupFailures r (createdChildren r cluster rcp spec w) of
                             [] \<Rightarrow> []
                           | f # fs \<Rightarrow> [Wrap (Aggregate (f # fs))
                                          ''failed to cleanup generated resources''])))
          \<and> (cleanupFailures r (createdChildren r cluster rcp spec w) = []
                \<longrightarrow> objects w' \<subseteq> objects w
                  \<and> (\<forall>ref \<in> set (createdChildren r cluster rcp spec w). ref \<notin> objects w'))
      | (None, w') \<Rightarrow>
          (\<exists>bootstrapRef machine.
              createdChildren r cluster rcp spec w = [infraRef, bootstrapRef]
              \<and> objects w' = objects w \<union> {infraRef, bootstrapRef, machineKey machine}
              \<and> machineKey machine \<notin> objects w
              \<and> filter isMachineCreate (calls w')
                  = filter isMachineCreate (calls w) @ [CallCreate (MachineObject machine)]))"
proof -
  let ?w1 = "w\<lparr>calls := calls w @ [CallCloneTemplate (SpecInfrastructureRef rcp)],
               objects := insert infraRef (objects w)\<rparr>"
  show ?thesis
  proof (cases r rcp cluster spec ?w1 rule: generateRKE2Config_cases)
    case (Failed e w2)
    note run = provision_config_failed [OF assms Failed(1)]
    let ?w' = "snd (ClientDelete r infraRef w2)"
    have del: "CallDelete infraRef \<in> set (calls ?w')"
      by (simp add: ClientDelete_calls)
    have obj: "objects ?w' \<subseteq> objects w \<and> infraRef \<notin> objects ?w'"
      if "cleanupFailures r [infraRef] = []"
      using ClientDelete_removes [OF that, of w2] Failed(2) by auto
    from del obj show ?thesis
      unfolding run by (simp del: cleanupFailures.simps)
  next
    case (Created ref w2)
    show ?thesis
    proof (cases r rcp cluster infraRef "Some ref" fd w2 rule: generateMachine_cases)
      case (Failed e w3)
      note run = provision_machine_failed [OF assms Created(1) Failed(1)]
      let ?wa = "snd (ClientDelete r infraRef w3)"
      let ?w' = "snd (ClientDelete r ref ?wa)"
      have del: "CallDelete infraRef \<in> set (calls ?w')" "CallDelete ref \<in> set (calls ?w')"
        by (simp_all add: ClientDelete_calls)
      have obj: "objects ?w' \<subseteq> objects w \<and> infraRef \<notin> objects ?w' \<and> ref \<notin> objects ?w'"
        if "cleanupFailures r [infraRef, ref] = []"
      proof -
        from that have "cleanupFailures r [infraRef] = []" "cleanupFailures r [ref] = []"
          by (simp_all only: cleanupFailures_two)
        from ClientDelete_removes [OF this(1), of w3] ClientDelete_removes [OF this(2), of ?wa]
          Failed(2) Created(2)
        show ?thesis by auto
      qed
      from del obj show ?thesis
        unfolding run by (simp del: cleanupFailures.simps)
    next
      case (Created machine w3)
      note c2 = \<open>generateRKE2Config r rcp cluster spec ?w1 = (Inr ref, w2)\<close>
        \<open>objects w2 = insert ref (objects ?w1)\<close>
        \<open>filter isMachineCreate (calls w2) = filter isMachineCreate (calls ?w1)\<close>
      note run = provision_success [OF assms c2(1) Created(1)]
      have "objects w3 = objects w \<union> {infraRef, ref, machineKey machine}"
        using Created(2) c2(2) by auto
      moreover have "machineKey machine \<notin> objects w"
        using Created(3) c2(2) by simp
      moreover have "filter isMachineCreate (calls w3)
          = filter isMachineCreate (calls w) @ [CallCreate (MachineObject machine)]"
        using Created(4) c2(3) by simp
      ultimately show ?thesis
        unfolding run by simp
    qed
  qed
qed

theorem provisioning_rollback_witness:
  "cloneConfigsAndGenerateMachine sampleReconcilerConfigFails sampleCluster sampleRcp
          ''init'' None sampleWorld
   = (Some (Aggregate
        [Wrap (Wrap (Api (StatusFailure ''admission denied''))
                 ''Failed to create bootstrap configuration'')
           ''failed to generate bootstrap config'']),
      \<lparr>objects = {},
       calls = [CallCloneTemplate (SpecInfrastructureRef sampleRcp),
                CallCreate (RKE2ConfigObject
                   \<lparr>Kind = ''RKE2Config'', APIVersion = ''bootstrap.cluster.x-k8s.io/v1alpha1'',
                    RefNamespace = ''default'', RefName = ''cp-4xq8z''\<rparr> ''init''),
                CallDelete sampleInfraRef],
       generated = 1\<rparr>)
   \<and> fst (cloneConfigsAndGenerateMachine sampleReconciler sampleCluster sampleRcp
          ''init'' None sampleWorld) = None
   \<and> objects (snd (cloneConfigsAndGenerateMachine sampleReconciler sampleCluster sampleRcp
          ''init'' None sampleWorld))
      = {sampleInfraRef,
         \<lparr>Kind = ''RKE2Config'', APIVersion = ''bootstrap.cluster.x-k8s.io/v1alpha1'',
          RefNamespace = ''default'', RefName = ''cp-4xq8z''\<rparr>,
         \<lparr>Kind = ''Machine'', APIVersion = ''cluster.x-k8s.io/v1beta1'',
          RefNamespace = ''default'', RefName = ''cp-9bw2m''\<rparr>}"
  using provisioning_rollback
          [where r = sampleReconcilerConfigFails and infraRef = sampleInfraRef
             and cluster = sampleCluster and rcp = sampleRcp and spec = "''init''"
             and fd = None and w = sampleWorld]
        provisioning_rollback
          [where r = sampleReconciler and infraRef = sampleInfraRef
             and cluster = sampleCluster and rcp = sampleRcp and spec = "''init''"
             and fd = None and w = sampleWorld]
  by (simp add: provision_defs sample_defs regex_defs isDigit_def machineKey_def
        clusterGroupVersion_def createdChildren_def insert_commute)

text \<open>
  The store refuses the bootstrap configuration and then the deletion of the clone:
  the attempt fails and the clone of the infrastructure template is still stored.
\<close>

theorem provisioning_orphan_counterexample:
  "fst (cloneConfigsAndGenerateMachine sampleReconcilerRollbackFails sampleCluster sampleRcp
          ''init'' None sampleWorld) \<noteq> None
   \<and> sampleInfraRef \<in> objects (snd (cloneConfigsAndGenerateMachine sampleReconcilerRollbackFails
          sampleCluster sampleRcp ''init'' None sampleWorld))"
  by (simp add: provision_defs sample_defs)


subsection \<open>The scale operations\<close>

text \<open>
  Claim C3: when the uncached read of owned machines returns at least one machine,
  \<^verbatim>\<open>initializeControlPlane\<close> returns the empty result with an error, and the world is
  as before: no call to the store has been issued and nothing has been created.
\<close>

theorem initializeControlPlane_guard:
  assumes "GetMachinesForCluster r = Inr ownedMachines" and "length ownedMachines \<ge> 1"
  shows "(\<exists>msg. fst (initializeControlPlane r cluster rcp controlPlane w)
                 = (emptyResult, Some (Errorf msg)))
       \<and> snd (initializeControlPlane r cluster rcp controlPlane w) = w"
proof -
  from assms(2) have "ownedMachines \<noteq> []" by auto
  with assms(1) show ?thesis by (simp add: initializeControlPlane_def)
qed

theorem initializeControlPlane_guard_witness:
  "initializeControlPlane
     (sampleReconciler\<lparr>GetMachinesForCluster := Inr [sampleMachine ''cp-a'' None ''True'']\<rparr>)
     sampleCluster sampleRcp (sampleControlPlane []) sampleWorld
   = ((emptyResult,
       Some (Errorf ''control plane has already been initialized, found 1 owned machine for cluster default/c1: controller cache or management cluster is misbehaving'')),
      sampleWorld)"
  using initializeControlPlane_guard
          [of "sampleReconciler\<lparr>GetMachinesForCluster := Inr [sampleMachine ''cp-a'' None ''True'']\<rparr>"
              "[sampleMachine ''cp-a'' None ''True'']" sampleCluster sampleRcp
              "sampleControlPlane []" sampleWorld]
  by (simp add: initializeControlPlane_def sampleReconciler_def sampleCluster_def showNat.simps)

text \<open>
  Claim C7: when selection returns a machine and the preflight gate, with that
  machine excluded, passes, \<^verbatim>\<open>scaleDownControlPlane\<close> returns a requeue with a nil
  error if the deletion succeeds or the store answers not-found, and the empty
  result with the store's error for every other failure of the deletion.
\<close>

theorem scaleDownControlPlane_delete_outcome:
  assumes "selectMachineForScaleDown controlPlane outdatedMachines = (Some machine, None)"
    and "preflightChecks r controlPlane [Some machine] = Return (emptyResult, None)"
  shows "(fst (ClientDelete r (machineKey machine) w) = None
            \<longrightarrow> fst (scaleDownControlPlane r cluster rcp controlPlane outdatedMachines w)
                  = Return (\<lparr>Requeue = True, RequeueAfter = 0\<rparr>, None))
       \<and> (fst (ClientDelete r (machineKey machine) w) = Some StatusNotFound
            \<longrightarrow> fst (scaleDownControlPlane r cluster rcp controlPlane outdatedMachines w)
                  = Return (\<lparr>Requeue = True, RequeueAfter = 0\<rparr>, None))
       \<and> (\<forall>msg. fst (ClientDelete r (machineKey machine) w) = Some (StatusFailure msg)
            \<longrightarrow> fst (scaleDownControlPlane r cluster rcp controlPlane outdatedMachines w)
                  = Return (emptyResult, Some (Api (StatusFailure msg))))"
  using assms
  by (cases "ClientDelete r (machineKey machine) w")
     (auto simp: scaleDownControlPlane_def scaleDownSelected_def IsZero_def)

theorem scaleDownControlPlane_delete_outcome_witness:
  "fst (scaleDownControlPlane sampleReconciler sampleCluster sampleRcp
         (sampleControlPlane [sampleMachine ''cp-a'' None ''True'',
                              sampleMachine ''cp-b'' None ''True'']) []
         sampleWorld)
   = Return (\<lparr>Requeue = True, RequeueAfter = 0\<rparr>, None)
   \<and> fst (scaleDownControlPlane sampleReconcilerDeleteFails sampleCluster sampleRcp
         (sampleControlPlane [sampleMachine ''cp-a'' None ''True'',
                              sampleMachine ''cp-b'' None ''True'']) []
         sampleWorld)
   = Return (emptyResult, Some (Api (StatusFailure ''timeout'')))"
  using scaleDownControlPlane_delete_outcome
          [where r = sampleReconciler and cluster = sampleCluster and rcp = sampleRcp
             and controlPlane = "sampleControlPlane [sampleMachine ''cp-a'' None ''True'',
                                                     sampleMachine ''cp-b'' None ''True'']"
             and outdatedMachines = "[]" and w = sampleWorld
             and machine = "sampleMachine ''cp-a'' None ''True''"]
        scaleDownControlPlane_delete_outcome
          [where r = sampleReconcilerDeleteFails and cluster = sampleCluster and rcp = sampleRcp
             and controlPlane = "sampleControlPlane [sampleMachine ''cp-a'' None ''True'',
                                                     sampleMachine ''cp-b'' None ''True'']"
             and outdatedMachines = "[]" and w = sampleWorld
             and machine = "sampleMachine ''cp-a'' None ''True''"]
  by (simp add: select_defs sample_defs preflightChecks_def HasDeletingMachine_def
        HasDeletionTimestamp_def preflightCheckCondition_def conditionsGet_def
        ConditionFalse_def ConditionUnknown_def ClientDelete_def machineKey_def
        clusterGroupVersion_def emptyResult_def)

text \<open>
  On an empty view the gate passes before its loop, and a nil candidate reaches the
  check \<^verbatim>\<open>machineToDelete == nil\<close>.
\<close>

lemma scaleDownSelected_nil_empty_view:
  "Machines controlPlane = [] \<Longrightarrow>
     scaleDownSelected r cluster rcp controlPlane None w
       = (Return (emptyResult, Some (Errorf ''failed to pick control plane Machine to delete'')), w)"
  by (simp add: scaleDownSelected_def preflightChecks_def IsZero_def)

text \<open>
  Claim C9: \<^verbatim>\<open>scaleDownControlPlane\<close> calls the gate with the candidate before it
  checks the candidate for nil. For every view with at least one member and no
  deleting member, the gate with a nil exclusion dereferences it and panics, and so
  does the scale-down from its preflight call on: the error of the nil check is not
  returned.
\<close>

theorem scaleDown_nil_candidate_panics:
  assumes "Machines controlPlane \<noteq> []" and "\<not> HasDeletingMachine controlPlane"
  shows "preflightChecks r controlPlane [None] = Panic
       \<and> scaleDownSelected r cluster rcp controlPlane None w = (Panic, w)"
proof -
  from assms(1) obtain m ms where "Machines controlPlane = m # ms"
    by (cases "Machines controlPlane") auto
  with assms(2) have "preflightChecks r controlPlane [None] = Panic"
    by (simp add: preflightChecks_def)
  then show ?thesis by (simp add: scaleDownSelected_def)
qed

theorem scaleDown_nil_candidate_panics_witness:
  "scaleDownSelected sampleReconciler sampleCluster sampleRcp
     (sampleControlPlane [sampleMachine ''cp-a'' None ''True'']) None sampleWorld
   = (Panic, sampleWorld)"
  using scaleDown_nil_candidate_panics
          [of "sampleControlPlane [sampleMachine ''cp-a'' None ''True'']"
              sampleReconciler sampleCluster sampleRcp sampleWorld]
  by (simp add: sampleControlPlane_def sampleMachine_def HasDeletingMachine_def
        HasDeletionTimestamp_def)

end
